theory Spec2Isabelle
  imports Complex_Main
begin

section \<open>Data model (types.ts)\<close>

text \<open>
  The interfaces of types.ts become records. Field names that would clash with a HOL
  constant, an Isabelle keyword or a field of another record carry a prefix:
  \<open>Card.id\<close> is \<open>card_id\<close>, \<open>Card.type\<close> is \<open>card_type\<close>, \<open>Card.value\<close> is
  \<open>card_value\<close>, \<open>ClockSegment.index\<close> is \<open>seg_index\<close>, \<open>Player.id\<close> is
  \<open>player_id\<close>, \<open>Player.name\<close> is \<open>player_name\<close>. A JavaScript \<open>number\<close> that holds
  an integer is an \<open>int\<close>; the optional \<open>ownerId\<close> and \<open>message\<close> are options.
\<close>

datatype CardType = SOLAR | LUNAR

record Card =
  card_id :: string
  card_type :: CardType
  card_value :: int
  isFaceUp :: bool
  ownerId :: "string option"

record ClockSegment =
  seg_index :: int
  cards :: "Card list"

record Player =
  player_id :: string
  player_name :: string
  hand :: "Card list"
  isLocal :: bool

text \<open>The enum \<open>ExtendedGamePhase\<close> of the application component.\<close>

datatype ExtendedGamePhase = LOBBY | SETUP | START_PLAYER_SELECTION | PLACEMENT | RESOLUTION

record ValidationResult =
  passed :: bool
  message :: "string option"

text \<open>
  \<open>ClockDefinition\<close>: the optional \<open>maxTotal\<close>, \<open>globalRules\<close> and
  \<open>placementRestriction\<close> are options; \<open>segmentRules\<close> is a map from slot index to
  rule, the absent object being the empty map (the source tests
  \<open>definition.segmentRules && definition.segmentRules[i]\<close>, which is false in both
  cases). The rule functions are pure functions of their arguments, as their TypeScript
  types say. The presentation-only fields (name, chapter, description, visualHints) are
  left out.
\<close>

record ClockDefinition =
  def_id :: string
  startingSegmentIndex :: int
  maxTotal :: "int option"
  segmentRules :: "int \<Rightarrow> (ClockSegment \<Rightarrow> ValidationResult) option"
  globalRules :: "(ClockSegment list \<Rightarrow> ValidationResult) option"
  placementRestriction ::
    "(Card \<Rightarrow> int \<Rightarrow> ClockSegment list \<Rightarrow> int \<Rightarrow> ValidationResult) option"

text \<open>An entry of \<open>resolutionResults\<close>: \<open>{index, passed, message}\<close>.\<close>

record ResolutionResult =
  res_index :: int
  res_passed :: bool
  res_message :: string

section \<open>JavaScript primitives\<close>

text \<open>
  The only exception the modelled code can raise is the TypeError of reading a property
  of \<open>undefined\<close>.
\<close>

datatype error = TypeError

text \<open>\<open>xs[i]\<close>: \<open>undefined\<close> (here \<open>None\<close>) outside \<open>0 .. length - 1\<close>.\<close>

definition js_nth :: "'a list \<Rightarrow> int \<Rightarrow> 'a option" where
  "js_nth xs i = (if 0 \<le> i \<and> i < int (length xs) then Some (xs ! nat i) else None)"

text \<open>\<open>xs.findIndex(P)\<close>: the first index whose element satisfies \<open>P\<close>, or \<open>-1\<close>.\<close>

fun findIndex :: "('a \<Rightarrow> bool) \<Rightarrow> 'a list \<Rightarrow> int" where
  "findIndex P [] = -1"
| "findIndex P (x # xs) =
     (if P x then 0 else (let r = findIndex P xs in if r = -1 then -1 else r + 1))"

text \<open>
  \<open>a % n\<close> on integers: the remainder has the sign of the dividend, and a zero divisor
  gives \<open>NaN\<close>, which is \<open>None\<close> here.
\<close>

definition js_rem :: "int \<Rightarrow> int \<Rightarrow> int option" where
  "js_rem a n = (if n = 0 then None else Some (sgn a * (\<bar>a\<bar> mod \<bar>n\<bar>)))"

section \<open>Host state\<close>

text \<open>
  The host logic modelled in this and the following sections is that of the application
  component in \<^verbatim>\<open>src/unnamed/part_002\<close>, the one with persistent identities,
  reconnection and the shared system message.

  The application keeps the game twice: in React state variables, which the handlers
  read through their closure and write through setters, and in \<open>gameStateRef.current\<close>,
  which the host logic treats as the source of truth. \<open>GameState\<close> is the shape both
  share: the fields that \<open>sanitizeStateForNetwork\<close> keeps in a snapshot. The mission
  object is the separate field \<open>activeClockDef\<close>; \<open>clockDefId\<close> is always its
  \<open>def_id\<close>. \<open>currentPlayerIndex\<close> is \<open>None\<close> when the source computes \<open>NaN\<close>.

  \<open>Host\<close> is one node: \<open>ui\<close> holds the React state variables, \<open>gameStateRef\<close> the
  ref, and the remaining fields the other state variables the modelled handlers touch.
  \<open>peerConnections\<close> maps a player id to the identifier of its channel, and \<open>conn\<close>
  is a client's channel to its host. The ref is \<open>null\<close> only before the first render;
  the handlers return at once then, and the model starts after it. After each render an
  effect copies the React state into the ref, so between events \<open>gameStateRef h = ui h\<close>.
  Broadcasts do not change this state and are not modelled; a message a handler sends to
  one peer is part of the handler's result where a property is about it. Of the timers
  only the resolution tick is modelled.
\<close>

record GameState =
  phase :: ExtendedGamePhase
  clockSegments :: "ClockSegment list"
  players :: "Player list"
  currentPlayerIndex :: "int option"
  faceUpTokensUsed :: int
  cardsPlayedCount :: int
  resolutionStep :: int
  resolutionResults :: "ResolutionResult list"
  systemMessage :: string

record Host =
  ui :: GameState
  gameStateRef :: GameState
  activeClockDef :: ClockDefinition
  isHost :: bool
  myPlayerId :: string
  myName :: string
  selectedCardId :: "string option"
  playFaceUp :: bool
  feedback :: string
  conn :: "nat option"
  connectedPeersList :: "(string \<times> string) list"
  peerConnections :: "string \<Rightarrow> nat option"

section \<open>Playing a card (executePlayCard, startResolution)\<close>

definition startResolution :: "ClockSegment list \<Rightarrow> Host \<Rightarrow> Host" where
  "startResolution finalSegments h =
     h\<lparr>ui := (ui h)\<lparr>resolutionStep := 0, systemMessage := ''Resolving...''\<rparr>,
       gameStateRef := (gameStateRef h)\<lparr>systemMessage := ''Resolving...''\<rparr>\<rparr>"

text \<open>
  \<open>executePlayCard\<close> reads \<open>gameStateRef.current\<close> into \<open>curr\<close>. Reading
  \<open>newSegments[segmentIndex].cards\<close> raises a TypeError when the index names no slot;
  this happens before the first assignment, so the exception leaves the host as it was.
  Otherwise the new state replaces the ref and the setters copy its fields to the React
  state. \<open>newState\<close> spreads the \<open>curr\<close> read at entry, so it overwrites what
  \<open>startResolution\<close> stored in the ref. The parameter \<open>card\<close> is written \<open>crd\<close>.
\<close>

definition executePlayCard :: "string \<Rightarrow> Card \<Rightarrow> int \<Rightarrow> bool \<Rightarrow> Host \<Rightarrow> error + Host" where
  "executePlayCard playerId crd segmentIndex faceUp h =
    (let curr = gameStateRef h;
         newPlayers = map (\<lambda>p. if player_id p = playerId
                                then p\<lparr>hand := filter (\<lambda>c. card_id c \<noteq> card_id crd) (hand p)\<rparr>
                                else p) (players curr);
         playedCard = crd\<lparr>isFaceUp := faceUp, ownerId := Some playerId\<rparr>
     in case js_nth (clockSegments curr) segmentIndex of
          None \<Rightarrow> Inl TypeError
        | Some seg \<Rightarrow>
           (let newSegments = (clockSegments curr)
                  [nat segmentIndex := seg\<lparr>cards := cards seg @ [playedCard]\<rparr>];
                newFaceUpCount = (if faceUp then faceUpTokensUsed curr + 1
                                  else faceUpTokensUsed curr);
                newCount = cardsPlayedCount curr + 1;
                currentIdx = findIndex (\<lambda>p. player_id p = playerId) (players curr);
                nextIdx = js_rem (currentIdx + 1) (int (length (players curr)));
                allEmpty = list_all (\<lambda>p. hand p = []) newPlayers;
                nextPhase = (if allEmpty then RESOLUTION else phase curr);
                h1 = (if allEmpty then startResolution newSegments (h\<lparr>feedback := ''Resolving...''\<rparr>)
                      else h);
                newState = curr\<lparr>phase := nextPhase, players := newPlayers,
                                clockSegments := newSegments, currentPlayerIndex := nextIdx,
                                faceUpTokensUsed := newFaceUpCount,
                                cardsPlayedCount := newCount\<rparr>
            in Inr (h1\<lparr>gameStateRef := newState,
                       ui := (ui h1)\<lparr>players := newPlayers, clockSegments := newSegments,
                                     faceUpTokensUsed := newFaceUpCount,
                                     cardsPlayedCount := newCount,
                                     currentPlayerIndex := nextIdx,
                                     phase := (if nextPhase \<noteq> phase (ui h1) then nextPhase
                                               else phase (ui h1))\<rparr>,
                       selectedCardId := None\<rparr>)))"


section \<open>Messages\<close>

text \<open>
  Replica to host: \<open>JOIN{playerId, name}\<close>, \<open>MOVE{playerId, card, segmentIndex, faceUp}\<close>,
  \<open>CLAIM_START{playerId, name}\<close>. Host to replica: \<open>STATE_UPDATE{state}\<close>,
  \<open>ERROR{message}\<close>, \<open>RESET\<close>. A snapshot is what \<open>sanitizeStateForNetwork\<close> returns:
  the state object without the mission object, that is the mission's identifier and the
  plain fields (the JSON round trip does not change plain data).
\<close>

datatype ClientMsg =
    JOIN string string
  | MOVE string Card int bool
  | CLAIM_START string string

type_synonym Snapshot = "string \<times> GameState"

datatype HostMsg = STATE_UPDATE Snapshot | ERROR string | RESET

definition sanitizeStateForNetwork :: "ClockDefinition \<Rightarrow> GameState \<Rightarrow> Snapshot" where
  "sanitizeStateForNetwork d s = (def_id d, s)"

section \<open>Starting the placement phase (startGamePhase, handleClaimStart)\<close>

text \<open>
  \<open>startGamePhase\<close> returns without effect when \<open>current.players[startIndex]\<close> is
  undefined. The timers it sets (a second broadcast, and clearing the message after
  3000 ms) are not modelled.
\<close>

definition startGamePhase :: "int \<Rightarrow> Host \<Rightarrow> Host" where
  "startGamePhase startIndex h =
    (let current = gameStateRef h
     in case js_nth (players current) startIndex of
          None \<Rightarrow> h
        | Some p \<Rightarrow>
           (let startMsg = player_name p @ '' starts!'';
                newState = current\<lparr>phase := PLACEMENT, currentPlayerIndex := Some startIndex,
                                   resolutionStep := -1, resolutionResults := [],
                                   systemMessage := startMsg\<rparr>
            in h\<lparr>gameStateRef := newState,
                 ui := (ui h)\<lparr>systemMessage := startMsg, phase := PLACEMENT,
                               currentPlayerIndex := Some startIndex\<rparr>\<rparr>))"

text \<open>The local "I Start!" button. A client sends its claim to the host, if it has a channel.\<close>

definition handleClaimStart :: "Host \<Rightarrow> Host \<times> ClientMsg option" where
  "handleClaimStart h =
    (if phase (ui h) \<noteq> START_PLAYER_SELECTION then (h, None)
     else if isHost h then
       (let myIdx = findIndex (\<lambda>p. player_id p = myPlayerId h) (players (ui h))
        in (startGamePhase myIdx h, None))
     else (case conn h of
             Some c \<Rightarrow> (h\<lparr>feedback := ''Waiting for host...''\<rparr>,
                        Some (CLAIM_START (myPlayerId h) (myName h)))
           | None \<Rightarrow> (h, None)))"

section \<open>Messages arriving at the host (handleIncomingDataHost, handleHostConnection)\<close>

definition handleIncomingDataHost :: "ClientMsg \<Rightarrow> Host \<Rightarrow> error + Host" where
  "handleIncomingDataHost data h =
    (case data of
       MOVE playerId crd segmentIndex faceUp \<Rightarrow>
         executePlayCard playerId crd segmentIndex faceUp h
     | CLAIM_START playerId name \<Rightarrow>
         (let currentPlayers = players (gameStateRef h);
              pIdx = findIndex (\<lambda>p. player_id p = playerId) currentPlayers
          in if pIdx \<noteq> -1 then Inr (startGamePhase pIdx h) else Inr h)
     | JOIN playerId name \<Rightarrow> Inr h)"

text \<open>
  The \<open>data\<close> callback that \<open>handleHostConnection\<close> installs on the channel
  \<open>connection\<close>. The result is the host afterwards and the message sent back on that
  channel, if any.
\<close>

definition handleHostConnection :: "nat \<Rightarrow> ClientMsg \<Rightarrow> Host \<Rightarrow> error + (Host \<times> HostMsg option)" where
  "handleHostConnection connection data h =
    (case data of
       JOIN pid name \<Rightarrow>
         (let h1 = h\<lparr>peerConnections := (peerConnections h)(pid \<mapsto> connection),
                     connectedPeersList :=
                       filter (\<lambda>p. fst p \<noteq> pid) (connectedPeersList h) @ [(pid, name)]\<rparr>;
              currentState = gameStateRef h1
          in if phase currentState \<noteq> LOBBY then
               (case find (\<lambda>p. player_id p = pid) (players currentState) of
                  Some existingPlayer \<Rightarrow>
                    Inr (h1\<lparr>feedback := name @ '' reconnected!''\<rparr>,
                         Some (STATE_UPDATE (sanitizeStateForNetwork (activeClockDef h1) currentState)))
                | None \<Rightarrow> Inr (h1, Some (ERROR ''Game already in progress.'')))
             else Inr (h1\<lparr>feedback := name @ '' joined lobby.''\<rparr>, None))
     | _ \<Rightarrow> (case handleIncomingDataHost data h of
              Inl e \<Rightarrow> Inl e
            | Inr h' \<Rightarrow> Inr (h', None)))"

section \<open>Clicking a slot (handleSegmentClick)\<close>

text \<open>
  The click handler reads the React state. \<open>players[currentPlayerIndex].id\<close> raises a
  TypeError when the index names no player. \<open>!selectedCardId\<close> holds for \<open>null\<close> and
  for the empty string. A template literal prints an undefined message as
  \<open>undefined\<close>. On the host the move goes to \<open>executePlayCard\<close>; a client sends it as
  a \<open>MOVE\<close> message, the second component of the result.
\<close>

definition handleSegmentClick :: "int \<Rightarrow> Host \<Rightarrow> error + (Host \<times> ClientMsg option)" where
  "handleSegmentClick segmentIndex h =
    (if phase (ui h) \<noteq> PLACEMENT then Inr (h, None)
     else case (case currentPlayerIndex (ui h) of None \<Rightarrow> None
                | Some i \<Rightarrow> js_nth (players (ui h)) i) of
       None \<Rightarrow> Inl TypeError
     | Some cur \<Rightarrow>
        if player_id cur \<noteq> myPlayerId h then Inr (h, None)
        else if selectedCardId h = None \<or> selectedCardId h = Some []
          then Inr (h\<lparr>feedback := ''Select a card first.''\<rparr>, None)
        else
          (let player = find (\<lambda>p. player_id p = myPlayerId h) (players (ui h));
               cardToPlay = (case player of None \<Rightarrow> None
                             | Some p \<Rightarrow> find (\<lambda>c. Some (card_id c) = selectedCardId h) (hand p))
           in case cardToPlay of
                None \<Rightarrow> Inr (h, None)
              | Some crd \<Rightarrow>
                 (let check = (case placementRestriction (activeClockDef h) of
                                 None \<Rightarrow> None
                               | Some f \<Rightarrow> Some (f crd segmentIndex (clockSegments (ui h))
                                                   (cardsPlayedCount (ui h))))
                  in case (case check of Some c \<Rightarrow> if \<not> passed c then Some c else None
                           | None \<Rightarrow> None) of
                       Some c \<Rightarrow>
                         Inr (h\<lparr>feedback := ''Invalid: '' @
                                  (case message c of None \<Rightarrow> ''undefined'' | Some m \<Rightarrow> m)\<rparr>, None)
                     | None \<Rightarrow>
                        if isHost h then
                          (case executePlayCard (myPlayerId h) crd segmentIndex (playFaceUp h) h of
                             Inl e \<Rightarrow> Inl e
                           | Inr h' \<Rightarrow> Inr (h', None))
                        else (case conn h of
                                Some cn \<Rightarrow>
                                  Inr (h\<lparr>feedback := ''Sending...'', selectedCardId := None\<rparr>,
                                       Some (MOVE (myPlayerId h) crd segmentIndex (playFaceUp h)))
                              | None \<Rightarrow> Inr (h, None)))))"


section \<open>Printing integers\<close>

text \<open>The decimal text that a template literal gives an integer.\<close>

function show_nat :: "nat \<Rightarrow> string" where
  "show_nat n =
     (if n < 10 then [''0123456789'' ! n]
      else show_nat (n div 10) @ [''0123456789'' ! (n mod 10)])"
  by pat_completeness auto
termination
  by (relation "measure id") auto

declare show_nat.simps [simp del]

definition show_int :: "int \<Rightarrow> string" where
  "show_int i = (if i < 0 then ''-'' @ show_nat (nat (- i)) else show_nat (nat i))"

section \<open>The second application component\<close>

text \<open>
  The application components in \<^verbatim>\<open>src/unnamed/part_000\<close> and
  \<^verbatim>\<open>src/unnamed/part_001\<close> share another \<open>executePlayCard\<close> and
  \<open>handleSegmentClick\<close>. There \<open>executePlayCard\<close> reads the ref and writes only
  the React state (the ref follows at the next render), \<open>startResolution\<close> only sets the
  resolution step, and the click handler checks the face-up limit before the placement
  restriction. A client's \<open>conn.send\<close> is not guarded, so it raises a TypeError
  without a channel.
\<close>

definition executePlayCard_part_001 :: "string \<Rightarrow> Card \<Rightarrow> int \<Rightarrow> bool \<Rightarrow> Host \<Rightarrow> error + Host" where
  "executePlayCard_part_001 playerId crd segmentIndex faceUp h =
    (let currPlayers = players (gameStateRef h);
         currSegments = clockSegments (gameStateRef h);
         currFaceUp = faceUpTokensUsed (gameStateRef h);
         currCount = cardsPlayedCount (gameStateRef h);
         newPlayers = map (\<lambda>p. if player_id p = playerId
                                then p\<lparr>hand := filter (\<lambda>c. card_id c \<noteq> card_id crd) (hand p)\<rparr>
                                else p) currPlayers;
         playedCard = crd\<lparr>isFaceUp := faceUp, ownerId := Some playerId\<rparr>
     in case js_nth currSegments segmentIndex of
          None \<Rightarrow> Inl TypeError
        | Some seg \<Rightarrow>
           (let newSegments = currSegments
                  [nat segmentIndex := seg\<lparr>cards := cards seg @ [playedCard]\<rparr>];
                newFaceUpCount = (if faceUp then currFaceUp + 1 else currFaceUp);
                newCount = currCount + 1;
                currentIdx = findIndex (\<lambda>p. player_id p = playerId) currPlayers;
                nextIdx = js_rem (currentIdx + 1) (int (length currPlayers));
                h1 = h\<lparr>ui := (ui h)\<lparr>players := newPlayers, clockSegments := newSegments,
                                     faceUpTokensUsed := newFaceUpCount,
                                     cardsPlayedCount := newCount,
                                     currentPlayerIndex := nextIdx\<rparr>,
                       selectedCardId := None\<rparr>;
                allEmpty = list_all (\<lambda>p. hand p = []) newPlayers
            in if allEmpty
               then Inr (h1\<lparr>ui := (ui h1)\<lparr>phase := RESOLUTION, resolutionStep := 0\<rparr>,
                            feedback := ''Resolving...''\<rparr>)
               else Inr h1))"

definition handleSegmentClick_part_001 :: "int \<Rightarrow> Host \<Rightarrow> error + (Host \<times> ClientMsg option)" where
  "handleSegmentClick_part_001 segmentIndex h =
    (if phase (ui h) \<noteq> PLACEMENT then Inr (h, None)
     else case (case currentPlayerIndex (ui h) of None \<Rightarrow> None
                | Some i \<Rightarrow> js_nth (players (ui h)) i) of
       None \<Rightarrow> Inl TypeError
     | Some cur \<Rightarrow>
        if player_id cur \<noteq> myPlayerId h then Inr (h, None)
        else if selectedCardId h = None \<or> selectedCardId h = Some []
          then Inr (h\<lparr>feedback := ''Select a card first.''\<rparr>, None)
        else
          (let player = find (\<lambda>p. player_id p = myPlayerId h) (players (ui h));
               cardToPlay = (case player of None \<Rightarrow> None
                             | Some p \<Rightarrow> find (\<lambda>c. Some (card_id c) = selectedCardId h) (hand p))
           in case cardToPlay of
                None \<Rightarrow> Inr (h, None)
              | Some crd \<Rightarrow>
                 (let faceUpLimit = int (length (players (ui h)))
                  in if playFaceUp h \<and> faceUpTokensUsed (ui h) \<ge> faceUpLimit
                     then Inr (h\<lparr>feedback := ''Limit of '' @ show_int faceUpLimit @
                                              '' Face-Up cards reached.''\<rparr>, None)
                     else
                      (let check = (case placementRestriction (activeClockDef h) of
                                      None \<Rightarrow> None
                                    | Some f \<Rightarrow> Some (f crd segmentIndex (clockSegments (ui h))
                                                        (cardsPlayedCount (ui h))))
                       in case (case check of Some c \<Rightarrow> if \<not> passed c then Some c else None
                                | None \<Rightarrow> None) of
                            Some c \<Rightarrow>
                              Inr (h\<lparr>feedback := ''Invalid Move: '' @
                                    (case message c of None \<Rightarrow> ''undefined'' | Some m \<Rightarrow> m)\<rparr>, None)
                          | None \<Rightarrow>
                             if isHost h then
                               (case executePlayCard_part_001 (myPlayerId h) crd segmentIndex
                                       (playFaceUp h) h of
                                  Inl e \<Rightarrow> Inl e
                                | Inr h' \<Rightarrow> Inr (h', None))
                             else (case conn h of
                                     Some cn \<Rightarrow>
                                       Inr (h\<lparr>feedback := ''Move sent...'', selectedCardId := None\<rparr>,
                                            Some (MOVE (myPlayerId h) crd segmentIndex (playFaceUp h)))
                                   | None \<Rightarrow> Inl TypeError)))))"

section \<open>Constants (constants.ts)\<close>

definition sumCards :: "Card list \<Rightarrow> int" where
  "sumCards cs = foldl (\<lambda>acc c. acc + card_value c) 0 cs"

definition TOTAL_SEGMENTS :: int where
  "TOTAL_SEGMENTS = 6"

text \<open>
  Two of the four missions of \<open>CLOCK_DEFINITIONS\<close>, used to run the definitions on
  concrete games: Clock II has slot rules and no placement restriction, Clock III has
  both.
\<close>

definition clock_c1_2 :: ClockDefinition where
  "clock_c1_2 =
    \<lparr>def_id = ''c1-2'', startingSegmentIndex = 0, maxTotal = Some 999,
     segmentRules = (\<lambda>i.
        if i = 2 then Some (\<lambda>seg.
            (let total = sumCards (cards seg)
             in if total \<ge> 8 \<and> total \<le> 12 then \<lparr>passed = True, message = None\<rparr>
                else \<lparr>passed = False,
                      message = Some (''Slot 3 sum is '' @ show_int total @ '', must be 8-12.'')\<rparr>))
        else if i = 3 then Some (\<lambda>seg.
            if length (cards seg) = 3 then \<lparr>passed = True, message = None\<rparr>
            else \<lparr>passed = False, message = Some ''Slot 4 must have exactly 3 cards.''\<rparr>)
        else None),
     globalRules = None,
     placementRestriction = None\<rparr>"

definition clock_c1_3 :: ClockDefinition where
  "clock_c1_3 =
    \<lparr>def_id = ''c1-3'', startingSegmentIndex = 0, maxTotal = Some 999,
     segmentRules = (\<lambda>i.
        if i = 5 then Some (\<lambda>seg.
            (let total = sumCards (cards seg)
             in if total \<ge> 20 \<and> total \<le> 30 then \<lparr>passed = True, message = None\<rparr>
                else \<lparr>passed = False,
                      message = Some (''Slot 6 sum is '' @ show_int total @ '', must be 20-30.'')\<rparr>))
        else None),
     globalRules = None,
     placementRestriction = Some (\<lambda>crd targetIndex currentSegments cardsPlayedTotal.
        if cardsPlayedTotal = 0 \<and> targetIndex \<noteq> 2
          then \<lparr>passed = False, message = Some ''1st card must go to Slot 3.''\<rparr>
        else if cardsPlayedTotal = 1 \<and> targetIndex \<noteq> 1
          then \<lparr>passed = False, message = Some ''2nd card must go to Slot 2.''\<rparr>
        else \<lparr>passed = True, message = None\<rparr>)\<rparr>"


section \<open>Deck, deal and bot (utils/gameUtils.ts)\<close>

text \<open>
  \<open>createDeck\<close> builds the 24 cards below and shuffles them with \<open>Math.random\<close>;
  \<open>freshDeck\<close> is the deck before the shuffle, and the functions that take a deck
  take any list of cards.
\<close>

definition freshDeck :: "Card list" where
  "freshDeck =
     map (\<lambda>i. \<lparr>card_id = ''s-'' @ show_int i, card_type = SOLAR, card_value = i,
               isFaceUp = False, ownerId = None\<rparr>) [1..12] @
     map (\<lambda>i. \<lparr>card_id = ''l-'' @ show_int i, card_type = LUNAR, card_value = i,
               isFaceUp = False, ownerId = None\<rparr>) [1..12]"

text \<open>
  \<open>dealCards\<close>: the inner loop runs \<open>cardsPerPlayer\<close> times for one player and pushes
  the card at \<open>cardIdx\<close> while the deck has one; the outer loop visits the players in
  order. The first argument of each loop function counts the iterations left.
\<close>

fun deal_inner :: "nat \<Rightarrow> Card list \<Rightarrow> Card list \<Rightarrow> nat \<Rightarrow> Card list \<times> nat" where
  "deal_inner 0 deck hnd cardIdx = (hnd, cardIdx)"
| "deal_inner (Suc c) deck hnd cardIdx =
     (if cardIdx < length deck
      then deal_inner c deck (hnd @ [deck ! cardIdx]) (cardIdx + 1)
      else deal_inner c deck hnd cardIdx)"

fun deal_outer :: "nat \<Rightarrow> nat \<Rightarrow> Card list \<Rightarrow> nat \<Rightarrow> Card list list" where
  "deal_outer 0 cardsPerPlayer deck cardIdx = []"
| "deal_outer (Suc p) cardsPerPlayer deck cardIdx =
     (case deal_inner cardsPerPlayer deck [] cardIdx of
        (hnd, cardIdx') \<Rightarrow> hnd # deal_outer p cardsPerPlayer deck cardIdx')"

definition dealCards :: "Card list \<Rightarrow> nat \<Rightarrow> Card list list" where
  "dealCards deck playerCount =
    (let cardsPerPlayer = 4;
         cardsPerPlayer = (if playerCount = 4 then 3 else cardsPerPlayer);
         cardsPerPlayer = (if playerCount = 2 then 6 else cardsPerPlayer)
     in deal_outer playerCount cardsPerPlayer deck 0)"

definition isValidMove :: "Card \<Rightarrow> int \<Rightarrow> ClockSegment list \<Rightarrow> ClockDefinition \<Rightarrow> int \<Rightarrow> bool" where
  "isValidMove crd segmentIndex segments defn cardsPlayedTotal =
    (case placementRestriction defn of
       Some f \<Rightarrow> (if \<not> passed (f crd segmentIndex segments cardsPlayedTotal) then False else True)
     | None \<Rightarrow> True)"

text \<open>
  \<open>Math.floor(Math.random() * n)\<close>: the value \<open>r\<close> that \<open>Math.random\<close> returns is a
  parameter, a real number with \<open>0 \<le> r < 1\<close>.
\<close>

definition random_index :: "real \<Rightarrow> nat \<Rightarrow> nat" where
  "random_index r n = nat \<lfloor>r * real n\<rfloor>"

text \<open>
  \<open>findBestBotMove\<close> calls \<open>Math.random\<close> once on each path that returns a move, so
  one value \<open>r\<close> stands for the call; the parameter \<open>definition\<close> is written \<open>defn\<close>. The valid moves are collected card by card,
  and for each card slot by slot. The parameter \<open>definition\<close> is written \<open>defn\<close>.
\<close>

definition findBestBotMove ::
  "real \<Rightarrow> Card list \<Rightarrow> ClockSegment list \<Rightarrow> ClockDefinition \<Rightarrow> int \<Rightarrow> (Card \<times> int) option" where
  "findBestBotMove r hnd segments defn cardsPlayedTotal =
    (let validMoves =
           concat (map (\<lambda>crd. map (\<lambda>i. (crd, i))
                          (filter (\<lambda>i. isValidMove crd i segments defn cardsPlayedTotal)
                                  [0..TOTAL_SEGMENTS - 1])) hnd)
     in if length validMoves > 0
        then Some (validMoves ! random_index r (length validMoves))
        else if length hnd > 0
        then Some (hnd ! 0, int (random_index r (nat TOTAL_SEGMENTS)))
        else None)"

section \<open>Bot turns (the bot effect)\<close>

text \<open>
  The effect that drives the bots: on the host in the placement phase, when the
  participant at the turn index is not local and its id starts with \<open>bot\<close>, a timer of
  1500 ms is armed. \<open>botEffect\<close> gives the host once the timer has fired: the callback
  reads the ref, asks \<open>findBestBotMove\<close> for a move and plays it face-down; without a
  move it plays the first card of a non-empty hand into slot 0.
\<close>

definition botEffect :: "real \<Rightarrow> Host \<Rightarrow> error + Host" where
  "botEffect r h =
    (if \<not> isHost h \<or> phase (ui h) \<noteq> PLACEMENT then Inr h
     else case (case currentPlayerIndex (ui h) of None \<Rightarrow> None
                | Some i \<Rightarrow> js_nth (players (ui h)) i) of
       None \<Rightarrow> Inr h
     | Some currentP \<Rightarrow>
        if \<not> isLocal currentP \<and> take 3 (player_id currentP) = ''bot'' then
          (let currentState = gameStateRef h
           in case find (\<lambda>p. player_id p = player_id currentP) (players currentState) of
                None \<Rightarrow> Inr h
              | Some botPlayer \<Rightarrow>
                 (case findBestBotMove r (hand botPlayer) (clockSegments currentState)
                         (activeClockDef h) (cardsPlayedCount currentState) of
                    Some bestMove \<Rightarrow>
                      executePlayCard (player_id botPlayer) (fst bestMove) (snd bestMove) False h
                  | None \<Rightarrow>
                      if length (hand botPlayer) > 0
                      then executePlayCard (player_id botPlayer) (hand botPlayer ! 0) 0 False h
                      else Inr h))
        else Inr h)"

section \<open>Full validation (validateClock)\<close>

text \<open>
  The loop of \<open>validateClock\<close> visits \<open>i = 0 .. 5\<close>; \<open>validate_loop\<close> takes the
  values of \<open>i\<close> still to visit, \<open>previousSum\<close> and the results pushed so far.
  \<open>segments[currentIdx].cards\<close> raises a TypeError when the board has no such slot.
  \<open>definition.maxTotal && ...\<close> treats a limit of 0 like an absent one. A failing
  slot rule or global rule pushes the rule's own result.
\<close>

fun validate_loop ::
  "ClockSegment list \<Rightarrow> ClockDefinition \<Rightarrow> int list \<Rightarrow> int \<Rightarrow> ValidationResult list
   \<Rightarrow> error + ValidationResult list" where
  "validate_loop segments defn [] previousSum results = Inr results"
| "validate_loop segments defn (i # rest) previousSum results =
    (case js_rem (startingSegmentIndex defn + i) TOTAL_SEGMENTS of
       None \<Rightarrow> Inl TypeError
     | Some currentIdx \<Rightarrow>
        (case js_nth segments currentIdx of
           None \<Rightarrow> Inl TypeError
         | Some seg \<Rightarrow>
            (let currentSum = sumCards (cards seg);
                 results1 =
                   (if i = 0 then results
                    else if currentSum < previousSum
                    then results @ [\<lparr>passed = False, message = Some
                           (''Ascending violation at Segment '' @ show_int (currentIdx + 1) @
                            '' (Sum: '' @ show_int currentSum @ '') vs previous (Sum: '' @
                            show_int previousSum @ '').'')\<rparr>]
                    else results);
                 results2 =
                   (case maxTotal defn of
                      Some m \<Rightarrow>
                        (if m \<noteq> 0 \<and> currentSum > m
                         then results1 @ [\<lparr>passed = False, message = Some
                                (''Segment '' @ show_int (currentIdx + 1) @ '' sum ('' @
                                 show_int currentSum @ '') exceeds limit of '' @
                                 show_int m @ ''.'')\<rparr>]
                         else results1)
                    | None \<Rightarrow> results1);
                 results3 =
                   (case segmentRules defn currentIdx of
                      Some rule \<Rightarrow>
                        (let res = rule seg
                         in if \<not> passed res then results2 @ [res] else results2)
                    | None \<Rightarrow> results2)
             in validate_loop segments defn rest currentSum results3)))"

definition validateClock :: "ClockSegment list \<Rightarrow> ClockDefinition \<Rightarrow> error + ValidationResult list" where
  "validateClock segments defn =
    (let results0 =
           concat (map (\<lambda>seg. if length (cards seg) = 0
                               then [\<lparr>passed = False, message = Some
                                      (''Segment '' @ show_int (seg_index seg + 1) @ '' is empty.'')\<rparr>]
                               else []) segments)
     in case validate_loop segments defn [0..TOTAL_SEGMENTS - 1] (-1) results0 of
          Inl e \<Rightarrow> Inl e
        | Inr results \<Rightarrow>
           (let results' = (case globalRules defn of
                              Some g \<Rightarrow> (let res = g segments
                                         in if \<not> passed res then results @ [res] else results)
                            | None \<Rightarrow> results)
            in if length results' = 0
               then Inr [\<lparr>passed = True, message = Some ''Clock Validated Successfully!''\<rparr>]
               else Inr results'))"

section \<open>The resolution sequencer (the resolution effect)\<close>

text \<open>
  The verdict that one tick computes for the slot at \<open>resolutionStep\<close>: the pair of
  the locals \<open>passed\<close> and \<open>msg\<close>. \<open>res.message || "Rule Failed"\<close> replaces an
  absent or empty message.
\<close>

definition tickVerdict :: "ClockDefinition \<Rightarrow> ClockSegment list \<Rightarrow> int \<Rightarrow> error + (bool \<times> string)" where
  "tickVerdict defn segments step =
    (case js_nth segments step of
       None \<Rightarrow> Inl TypeError
     | Some segment \<Rightarrow>
        if length (cards segment) = 0 then Inr (False, ''Empty'')
        else
          (let pm = (True, []);
               pm = (case segmentRules defn step of
                       Some rule \<Rightarrow>
                         (let res = rule segment
                          in if \<not> passed res
                             then (False, (case message res of
                                             None \<Rightarrow> ''Rule Failed''
                                           | Some m \<Rightarrow> if m = [] then ''Rule Failed'' else m))
                             else pm)
                     | None \<Rightarrow> pm)
           in if fst pm \<and> step > 0
              then (case js_nth segments (step - 1) of
                      None \<Rightarrow> Inl TypeError
                    | Some prev \<Rightarrow>
                       (let prevSum = foldl (\<lambda>acc c. acc + card_value c) 0 (cards prev);
                            currSum = foldl (\<lambda>acc c. acc + card_value c) 0 (cards segment)
                        in if currSum < prevSum then Inr (False, ''Not Ascending'') else Inr pm))
              else Inr pm))"

text \<open>
  The effect that runs when \<open>phase\<close>, \<open>resolutionStep\<close> or \<open>clockSegments\<close> change.
  In the resolution phase with the step in \<open>0 .. 5\<close> it arms a timer of 2000 ms;
  \<open>resolutionEffect\<close> gives the host once the timer has fired. With the step at 6 the
  host computes the final message. The effect reads the React state and, on the host,
  also stores the step, the results and the final message in the ref.
\<close>

definition resolutionEffect :: "Host \<Rightarrow> error + Host" where
  "resolutionEffect h =
    (let step = resolutionStep (ui h)
     in if phase (ui h) = RESOLUTION \<and> step \<ge> 0 \<and> step < TOTAL_SEGMENTS then
          (case tickVerdict (activeClockDef h) (clockSegments (ui h)) step of
             Inl e \<Rightarrow> Inl e
           | Inr (p, msg) \<Rightarrow>
              (let newResult = \<lparr>res_index = step, res_passed = p, res_message = msg\<rparr>;
                   h1 = h\<lparr>ui := (ui h)\<lparr>resolutionResults := resolutionResults (ui h) @ [newResult],
                                        resolutionStep := step + 1\<rparr>\<rparr>
               in if isHost h
                  then Inr (h1\<lparr>gameStateRef := (gameStateRef h)
                                 \<lparr>resolutionStep := step + 1,
                                  resolutionResults := resolutionResults (ui h) @ [newResult]\<rparr>\<rparr>)
                  else Inr h1))
        else if phase (ui h) = RESOLUTION \<and> step = TOTAL_SEGMENTS then
          (if isHost h then
             (case validateClock (clockSegments (ui h)) (activeClockDef h) of
                Inl e \<Rightarrow> Inl e
              | Inr totalValidation \<Rightarrow>
                 (let allPassed = list_all passed totalValidation;
                      finalMsg = (if allPassed then ''VICTORY!'' else ''DEFEAT!'')
                  in Inr (h\<lparr>ui := (ui h)\<lparr>systemMessage := finalMsg\<rparr>,
                            gameStateRef := (gameStateRef h)\<lparr>systemMessage := finalMsg\<rparr>\<rparr>)))
           else Inr h)
        else Inr h)"

section \<open>Full validation as the specification words it\<close>

text \<open>
  Follows the spec's words, not the source: the overall outcome passes when every slot
  is non-empty, the sums are non-decreasing end-to-end in the mission's slot order
  (position \<open>i\<close> of the order is slot \<open>(startingSegmentIndex + i) mod 6\<close>), each
  per-slot rule of a visited slot passes, no visited slot's sum exceeds the optional
  maximum total, and the global rule passes.
\<close>

definition slotSum_spec :: "ClockSegment list \<Rightarrow> ClockDefinition \<Rightarrow> int \<Rightarrow> int" where
  "slotSum_spec segments defn i =
     sumCards (cards (segments ! nat ((startingSegmentIndex defn + i) mod 6)))"

definition fullValidation_spec :: "ClockSegment list \<Rightarrow> ClockDefinition \<Rightarrow> bool" where
  "fullValidation_spec segments defn \<longleftrightarrow>
     list_all (\<lambda>seg. cards seg \<noteq> []) segments \<and>
     list_all (\<lambda>i. slotSum_spec segments defn (i - 1) \<le> slotSum_spec segments defn i) [1..5] \<and>
     list_all (\<lambda>i. case segmentRules defn ((startingSegmentIndex defn + i) mod 6) of
                     None \<Rightarrow> True
                   | Some rule \<Rightarrow>
                       passed (rule (segments ! nat ((startingSegmentIndex defn + i) mod 6))))
              [0..5] \<and>
     (case maxTotal defn of
        None \<Rightarrow> True
      | Some m \<Rightarrow> list_all (\<lambda>i. slotSum_spec segments defn i \<le> m) [0..5]) \<and>
     (case globalRules defn of None \<Rightarrow> True | Some g \<Rightarrow> passed (g segments))"

section \<open>A concrete game\<close>

text \<open>
  A three-player game in the placement phase on the host, with an empty board as
  \<open>initGame\<close> builds it, and Clock II as the mission. It is the first player's turn.
\<close>

definition solar5 :: Card where
  "solar5 = \<lparr>card_id = ''s-5'', card_type = SOLAR, card_value = 5, isFaceUp = False, ownerId = None\<rparr>"

definition lunar2 :: Card where
  "lunar2 = \<lparr>card_id = ''l-2'', card_type = LUNAR, card_value = 2, isFaceUp = False, ownerId = None\<rparr>"

definition solar8 :: Card where
  "solar8 = \<lparr>card_id = ''s-8'', card_type = SOLAR, card_value = 8, isFaceUp = False, ownerId = None\<rparr>"

definition lunar9 :: Card where
  "lunar9 = \<lparr>card_id = ''l-9'', card_type = LUNAR, card_value = 9, isFaceUp = False, ownerId = None\<rparr>"

definition emptyBoard :: "ClockSegment list" where
  "emptyBoard = map (\<lambda>i. \<lparr>seg_index = i, cards = []\<rparr>) [0, 1, 2, 3, 4, 5]"

definition demoPlayers :: "Player list" where
  "demoPlayers =
     [\<lparr>player_id = ''user-a'', player_name = ''Ann'', hand = [solar5, lunar2], isLocal = True\<rparr>,
      \<lparr>player_id = ''user-b'', player_name = ''Bob'', hand = [solar8], isLocal = False\<rparr>,
      \<lparr>player_id = ''bot-2'', player_name = ''Bot 2'', hand = [lunar9], isLocal = False\<rparr>]"

definition demoState :: GameState where
  "demoState =
     \<lparr>phase = PLACEMENT, clockSegments = emptyBoard, players = demoPlayers,
      currentPlayerIndex = Some 0, faceUpTokensUsed = 0, cardsPlayedCount = 0,
      resolutionStep = -1, resolutionResults = [], systemMessage = []\<rparr>"

definition demoHost :: Host where
  "demoHost =
     \<lparr>ui = demoState, gameStateRef = demoState, activeClockDef = clock_c1_2, isHost = True,
      myPlayerId = ''user-a'', myName = ''Ann'', selectedCardId = Some ''s-5'',
      playFaceUp = False, feedback = [], conn = None,
      connectedPeersList = [(''user-b'', ''Bob'')],
      peerConnections = [''user-b'' \<mapsto> 1]\<rparr>"

text \<open>
  The same game before a start claim, and a later position of it in which three cards
  have been played, all three face-up.
\<close>

definition startHost :: Host where
  "startHost = demoHost\<lparr>ui := demoState\<lparr>phase := START_PLAYER_SELECTION\<rparr>,
                        gameStateRef := demoState\<lparr>phase := START_PLAYER_SELECTION\<rparr>\<rparr>"

definition limitState :: GameState where
  "limitState =
     \<lparr>phase = PLACEMENT,
      clockSegments =
        [\<lparr>seg_index = 0, cards = [lunar2\<lparr>isFaceUp := True, ownerId := Some ''user-a''\<rparr>]\<rparr>,
         \<lparr>seg_index = 1, cards = [solar8\<lparr>isFaceUp := True, ownerId := Some ''user-b''\<rparr>]\<rparr>,
         \<lparr>seg_index = 2, cards = [lunar9\<lparr>isFaceUp := True, ownerId := Some ''bot-2''\<rparr>]\<rparr>,
         \<lparr>seg_index = 3, cards = []\<rparr>, \<lparr>seg_index = 4, cards = []\<rparr>,
         \<lparr>seg_index = 5, cards = []\<rparr>],
      players =
        [\<lparr>player_id = ''user-a'', player_name = ''Ann'', hand = [solar5], isLocal = True\<rparr>,
         \<lparr>player_id = ''user-b'', player_name = ''Bob'', hand = [], isLocal = False\<rparr>,
         \<lparr>player_id = ''bot-2'', player_name = ''Bot 2'', hand = [], isLocal = False\<rparr>],
      currentPlayerIndex = Some 0, faceUpTokensUsed = 3, cardsPlayedCount = 3,
      resolutionStep = -1, resolutionResults = [], systemMessage = []\<rparr>"

definition limitHost :: Host where
  "limitHost = demoHost\<lparr>ui := limitState, gameStateRef := limitState, playFaceUp := True\<rparr>"

text \<open>A mission whose placement restriction accepts no card in any slot.\<close>

definition rejectAll :: ClockDefinition where
  "rejectAll = clock_c1_2\<lparr>def_id := ''reject-all'',
     placementRestriction := Some (\<lambda>crd targetIndex currentSegments cardsPlayedTotal.
        \<lparr>passed = False, message = Some ''No slot accepts a card.''\<rparr>)\<rparr>"

text \<open>The concrete game with that mission, at the turn of the bot.\<close>

definition botHost :: Host where
  "botHost = demoHost\<lparr>ui := demoState\<lparr>currentPlayerIndex := Some 2\<rparr>,
                      gameStateRef := demoState\<lparr>currentPlayerIndex := Some 2\<rparr>,
                      activeClockDef := rejectAll\<rparr>"

text \<open>
  The game in the resolution phase, four cards played, with slot 0 judged and the cursor
  at slot 1, whose sum 5 is below the sum 8 of slot 0.
\<close>

definition resState :: GameState where
  "resState =
     \<lparr>phase = RESOLUTION,
      clockSegments =
        [\<lparr>seg_index = 0, cards = [solar8\<lparr>ownerId := Some ''user-b''\<rparr>]\<rparr>,
         \<lparr>seg_index = 1, cards = [solar5\<lparr>ownerId := Some ''user-a''\<rparr>]\<rparr>,
         \<lparr>seg_index = 2, cards = [lunar9\<lparr>ownerId := Some ''bot-2''\<rparr>]\<rparr>,
         \<lparr>seg_index = 3, cards = [lunar2\<lparr>ownerId := Some ''user-a''\<rparr>]\<rparr>,
         \<lparr>seg_index = 4, cards = []\<rparr>, \<lparr>seg_index = 5, cards = []\<rparr>],
      players =
        [\<lparr>player_id = ''user-a'', player_name = ''Ann'', hand = [], isLocal = True\<rparr>,
         \<lparr>player_id = ''user-b'', player_name = ''Bob'', hand = [], isLocal = False\<rparr>,
         \<lparr>player_id = ''bot-2'', player_name = ''Bot 2'', hand = [], isLocal = False\<rparr>],
      currentPlayerIndex = Some 1, faceUpTokensUsed = 0, cardsPlayedCount = 4,
      resolutionStep = 1,
      resolutionResults = [\<lparr>res_index = 0, res_passed = True, res_message = []\<rparr>],
      systemMessage = ''Resolving...''\<rparr>"

definition resHost :: Host where
  "resHost = demoHost\<lparr>ui := resState, gameStateRef := resState, selectedCardId := None\<rparr>"

text \<open>Two finished boards for Clock II, one that meets every rule and one that does not.\<close>

definition solar1 :: Card where
  "solar1 = \<lparr>card_id = ''s-1'', card_type = SOLAR, card_value = 1, isFaceUp = False, ownerId = None\<rparr>"

definition lunar1 :: Card where
  "lunar1 = \<lparr>card_id = ''l-1'', card_type = LUNAR, card_value = 1, isFaceUp = False, ownerId = None\<rparr>"

definition solar11 :: Card where
  "solar11 = \<lparr>card_id = ''s-11'', card_type = SOLAR, card_value = 11, isFaceUp = False, ownerId = None\<rparr>"

definition solar12 :: Card where
  "solar12 = \<lparr>card_id = ''s-12'', card_type = SOLAR, card_value = 12, isFaceUp = False, ownerId = None\<rparr>"

definition wonBoard :: "ClockSegment list" where
  "wonBoard =
     [\<lparr>seg_index = 0, cards = [lunar2]\<rparr>, \<lparr>seg_index = 1, cards = [solar5]\<rparr>,
      \<lparr>seg_index = 2, cards = [solar8]\<rparr>, \<lparr>seg_index = 3, cards = [lunar9, solar1, lunar1]\<rparr>,
      \<lparr>seg_index = 4, cards = [solar11]\<rparr>, \<lparr>seg_index = 5, cards = [solar12]\<rparr>]"

definition lostBoard :: "ClockSegment list" where
  "lostBoard =
     [\<lparr>seg_index = 0, cards = [solar8]\<rparr>, \<lparr>seg_index = 1, cards = [solar5]\<rparr>,
      \<lparr>seg_index = 2, cards = [lunar9]\<rparr>, \<lparr>seg_index = 3, cards = [lunar2, solar1, lunar1]\<rparr>,
      \<lparr>seg_index = 4, cards = [solar11]\<rparr>, \<lparr>seg_index = 5, cards = [solar12]\<rparr>]"

definition endHost :: "ClockSegment list \<Rightarrow> Host" where
  "endHost board =
     demoHost\<lparr>ui := demoState\<lparr>phase := RESOLUTION, clockSegments := board, resolutionStep := 6,
                               systemMessage := ''Resolving...''\<rparr>,
              gameStateRef := demoState\<lparr>phase := RESOLUTION, clockSegments := board,
                               resolutionStep := 6, systemMessage := ''Resolving...''\<rparr>\<rparr>"

section \<open>Auxiliary facts\<close>

lemma js_nth_update:
  "0 \<le> s \<Longrightarrow>
   js_nth (xs[nat s := v]) j = (if j = s \<and> s < int (length xs) then Some v else js_nth xs j)"
  by (auto simp: js_nth_def nth_list_update)

lemma findIndex_ge: "- 1 \<le> findIndex P xs"
  by (induction xs) (auto simp: Let_def)

lemma findIndex_found:
  "0 \<le> findIndex P xs \<Longrightarrow>
   findIndex P xs < int (length xs) \<and> P (xs ! nat (findIndex P xs))"
proof (induction xs)
  case Nil
  then show ?case by simp
next
  case (Cons x xs)
  show ?case
  proof (cases "P x")
    case True
    then show ?thesis by simp
  next
    case False
    with Cons.prems have nz: "findIndex P xs \<noteq> - 1"
      by (auto simp: Let_def split: if_splits)
    with findIndex_ge [of P xs] have ge: "0 \<le> findIndex P xs" by linarith
    from Cons.IH [OF ge] False nz ge show ?thesis
      by (simp add: Let_def nat_add_distrib)
  qed
qed

lemma js_rem_nonneg: "0 \<le> a \<Longrightarrow> 0 < n \<Longrightarrow> js_rem a n = Some (a mod n)"
  by (cases "a = 0") (auto simp: js_rem_def)

lemma executePlayCard_part_001_counter:
  "executePlayCard_part_001 playerId crd s faceUp h = Inr h' \<Longrightarrow>
   gameStateRef h' = gameStateRef h \<and>
   length (players (ui h')) = length (players (gameStateRef h)) \<and>
   faceUpTokensUsed (ui h') =
     (if faceUp then faceUpTokensUsed (gameStateRef h) + 1 else faceUpTokensUsed (gameStateRef h))"
  by (auto simp: executePlayCard_part_001_def Let_def split: option.splits if_splits)

lemma random_index_less: "0 \<le> r \<Longrightarrow> r < 1 \<Longrightarrow> 0 < n \<Longrightarrow> random_index r n < n"
proof -
  assume r: "0 \<le> r" "r < 1" and n: "0 < n"
  then have "r * real n < real n" by simp
  then have "\<lfloor>r * real n\<rfloor> < int n" by (simp add: floor_less_iff)
  moreover have "0 \<le> \<lfloor>r * real n\<rfloor>" using r by simp
  ultimately show ?thesis unfolding random_index_def by linarith
qed

lemma deal_inner_eq:
  "deal_inner c deck hnd cardIdx =
     (hnd @ take c (drop cardIdx deck), min (cardIdx + c) (max cardIdx (length deck)))"
proof (induction c arbitrary: hnd cardIdx)
  case 0
  then show ?case by simp
next
  case (Suc c)
  show ?case
  proof (cases "cardIdx < length deck")
    case True
    then have "take (Suc c) (drop cardIdx deck) = deck ! cardIdx # take c (drop (Suc cardIdx) deck)"
      by (simp add: Cons_nth_drop_Suc [symmetric])
    with True Suc.IH show ?thesis by simp
  next
    case False
    with Suc.IH show ?thesis by simp
  qed
qed

lemma deal_outer_eq:
  "cardIdx + p * k \<le> length deck \<Longrightarrow>
   length (deal_outer p k deck cardIdx) = p \<and>
   (\<forall>h \<in> set (deal_outer p k deck cardIdx). length h = k) \<and>
   concat (deal_outer p k deck cardIdx) = take (p * k) (drop cardIdx deck)"
proof (induction p arbitrary: cardIdx)
  case 0
  then show ?case by simp
next
  case (Suc p)
  from Suc.prems have le: "cardIdx + k \<le> length deck" and rest: "(cardIdx + k) + p * k \<le> length deck"
    by simp_all
  from le have idx: "min (cardIdx + k) (max cardIdx (length deck)) = cardIdx + k"
    by simp
  have split: "take (Suc p * k) (drop cardIdx deck) =
      take k (drop cardIdx deck) @ take (p * k) (drop (cardIdx + k) deck)"
    by (simp add: take_add add.commute)
  from Suc.IH [OF rest] le idx split show ?case
    by (simp add: deal_inner_eq)
qed

lemma length_freshDeck: "length freshDeck = 24"
  by (simp add: freshDeck_def)

lemma js_nth_Some_iff:
  "js_nth xs i = Some x \<longleftrightarrow> 0 \<le> i \<and> i < int (length xs) \<and> xs ! nat i = x"
  by (auto simp: js_nth_def)

lemma validate_loop_step:
  assumes start: "0 \<le> startingSegmentIndex defn" and i: "0 \<le> i"
    and len: "6 \<le> length segments"
  shows "\<exists>fs. validate_loop segments defn (i # rest) prev rs =
            validate_loop segments defn rest (slotSum_spec segments defn i) (rs @ fs) \<and>
          (\<forall>r \<in> set fs. \<not> passed r) \<and>
          (fs = [] \<longleftrightarrow>
             (i = 0 \<or> prev \<le> slotSum_spec segments defn i) \<and>
             (case maxTotal defn of None \<Rightarrow> True
              | Some m \<Rightarrow> m = 0 \<or> slotSum_spec segments defn i \<le> m) \<and>
             (case segmentRules defn ((startingSegmentIndex defn + i) mod 6) of
                None \<Rightarrow> True
              | Some rule \<Rightarrow>
                  passed (rule (segments ! nat ((startingSegmentIndex defn + i) mod 6)))))"
proof -
  let ?k = "(startingSegmentIndex defn + i) mod 6"
  from start i have rem: "js_rem (startingSegmentIndex defn + i) TOTAL_SEGMENTS = Some ?k"
    by (cases "startingSegmentIndex defn + i = 0") (auto simp: js_rem_def TOTAL_SEGMENTS_def)
  have "0 \<le> ?k" "?k < 6" by simp_all
  with len have nth: "js_nth segments ?k = Some (segments ! nat ?k)"
    by (simp add: js_nth_def)
  let ?cur = "sumCards (cards (segments ! nat ?k))"
  let ?r1 = "if i = 0 then [] else if ?cur < prev
             then [\<lparr>passed = False, message = Some
                     (''Ascending violation at Segment '' @ show_int (?k + 1) @
                      '' (Sum: '' @ show_int ?cur @ '') vs previous (Sum: '' @
                      show_int prev @ '').'')\<rparr>]
             else []"
  let ?r2 = "case maxTotal defn of
               Some m \<Rightarrow>
                 (if m \<noteq> 0 \<and> ?cur > m
                  then [\<lparr>passed = False, message = Some
                          (''Segment '' @ show_int (?k + 1) @ '' sum ('' @
                           show_int ?cur @ '') exceeds limit of '' @ show_int m @ ''.'')\<rparr>]
                  else [])
             | None \<Rightarrow> []"
  let ?r3 = "case segmentRules defn ?k of
               Some rule \<Rightarrow> (if \<not> passed (rule (segments ! nat ?k))
                             then [rule (segments ! nat ?k)] else [])
             | None \<Rightarrow> []"
  have eq: "validate_loop segments defn (i # rest) prev rs =
            validate_loop segments defn rest (slotSum_spec segments defn i) (rs @ (?r1 @ ?r2 @ ?r3))"
    unfolding validate_loop.simps rem nth option.case slotSum_spec_def
    by (cases "i = 0"; cases "maxTotal defn"; cases "segmentRules defn ?k")
       (simp_all add: Let_def)
  have fl: "\<forall>r \<in> set (?r1 @ ?r2 @ ?r3). \<not> passed r"
    by (auto split: option.splits if_splits)
  have em: "?r1 @ ?r2 @ ?r3 = [] \<longleftrightarrow>
             (i = 0 \<or> prev \<le> slotSum_spec segments defn i) \<and>
             (case maxTotal defn of None \<Rightarrow> True
              | Some m \<Rightarrow> m = 0 \<or> slotSum_spec segments defn i \<le> m) \<and>
             (case segmentRules defn ?k of
                None \<Rightarrow> True
              | Some rule \<Rightarrow> passed (rule (segments ! nat ?k)))"
    unfolding slotSum_spec_def
    by (auto split: option.splits if_splits)
  from eq fl em show ?thesis by blast
qed

lemma validate_loop_upto:
  assumes start: "0 \<le> startingSegmentIndex defn" and len: "6 \<le> length segments"
  shows "0 \<le> k \<Longrightarrow>
    \<exists>fs. validate_loop segments defn [k..5] prev rs = Inr (rs @ fs) \<and>
      (\<forall>r \<in> set fs. \<not> passed r) \<and>
      (fs = [] \<longleftrightarrow>
         (k \<le> 5 \<and> k \<noteq> 0 \<longrightarrow> prev \<le> slotSum_spec segments defn k) \<and>
         (\<forall>i \<in> {k + 1..5}. slotSum_spec segments defn (i - 1) \<le> slotSum_spec segments defn i) \<and>
         (\<forall>i \<in> {k..5}.
            (case maxTotal defn of None \<Rightarrow> True
             | Some m \<Rightarrow> m = 0 \<or> slotSum_spec segments defn i \<le> m) \<and>
            (case segmentRules defn ((startingSegmentIndex defn + i) mod 6) of
               None \<Rightarrow> True
             | Some rule \<Rightarrow>
                 passed (rule (segments ! nat ((startingSegmentIndex defn + i) mod 6))))))"
proof (induction "nat (6 - k)" arbitrary: k prev rs)
  case 0
  then have "[k..5] = []" by simp
  moreover from 0 have "{k + 1..5} = {}" "{k..5} = {}" "\<not> k \<le> 5" by auto
  ultimately show ?case by simp
next
  case (Suc n)
  then have k5: "k \<le> 5" and k0: "0 \<le> k" by linarith+
  then have up: "[k..5] = k # [k + 1..5]" by (simp add: upto.simps)
  let ?S = "slotSum_spec segments defn"
  let ?ok = "\<lambda>i. (case maxTotal defn of None \<Rightarrow> True | Some m \<Rightarrow> m = 0 \<or> ?S i \<le> m) \<and>
            (case segmentRules defn ((startingSegmentIndex defn + i) mod 6) of
               None \<Rightarrow> True
             | Some rule \<Rightarrow>
                 passed (rule (segments ! nat ((startingSegmentIndex defn + i) mod 6))))"
  from validate_loop_step [OF start k0 len, of "[k + 1..5]" prev rs]
  obtain fs where
    st: "validate_loop segments defn (k # [k + 1..5]) prev rs =
           validate_loop segments defn [k + 1..5] (?S k) (rs @ fs)"
    and fsf: "\<forall>r \<in> set fs. \<not> passed r"
    and fse: "fs = [] \<longleftrightarrow> (k = 0 \<or> prev \<le> ?S k) \<and> ?ok k"
    by blast
  from Suc.hyps(2) have n: "n = nat (6 - (k + 1))" by linarith
  from k0 have k1: "0 \<le> k + 1" by simp
  from Suc.hyps(1) [OF n k1, of "?S k" "rs @ fs"]
  obtain gs where
    ih: "validate_loop segments defn [k + 1..5] (?S k) (rs @ fs) = Inr ((rs @ fs) @ gs)"
    and gsf: "\<forall>r \<in> set gs. \<not> passed r"
    and gse: "gs = [] \<longleftrightarrow>
         (k + 1 \<le> 5 \<and> k + 1 \<noteq> 0 \<longrightarrow> ?S k \<le> ?S (k + 1)) \<and>
         (\<forall>i \<in> {k + 1 + 1..5}. ?S (i - 1) \<le> ?S i) \<and>
         (\<forall>i \<in> {k + 1..5}. ?ok i)"
    by blast
  have asc: "(\<forall>i \<in> {k + 1..5}. ?S (i - 1) \<le> ?S i) \<longleftrightarrow>
       (k + 1 \<le> 5 \<longrightarrow> ?S k \<le> ?S (k + 1)) \<and> (\<forall>i \<in> {k + 1 + 1..5}. ?S (i - 1) \<le> ?S i)"
  proof
    assume a: "\<forall>i \<in> {k + 1..5}. ?S (i - 1) \<le> ?S i"
    have "k + 1 \<le> 5 \<longrightarrow> ?S k \<le> ?S (k + 1)"
    proof
      assume "k + 1 \<le> 5"
      then have "k + 1 \<in> {k + 1..5}" by simp
      with a have "?S (k + 1 - 1) \<le> ?S (k + 1)" by blast
      then show "?S k \<le> ?S (k + 1)" by simp
    qed
    with a show "(k + 1 \<le> 5 \<longrightarrow> ?S k \<le> ?S (k + 1)) \<and> (\<forall>i \<in> {k + 1 + 1..5}. ?S (i - 1) \<le> ?S i)"
      by auto
  next
    assume a: "(k + 1 \<le> 5 \<longrightarrow> ?S k \<le> ?S (k + 1)) \<and> (\<forall>i \<in> {k + 1 + 1..5}. ?S (i - 1) \<le> ?S i)"
    show "\<forall>i \<in> {k + 1..5}. ?S (i - 1) \<le> ?S i"
    proof
      fix i assume i: "i \<in> {k + 1..5}"
      show "?S (i - 1) \<le> ?S i"
      proof (cases "i = k + 1")
        case True
        with a i show ?thesis by auto
      next
        case False
        with i have "i \<in> {k + 1 + 1..5}" by auto
        with a show ?thesis by blast
      qed
    qed
  qed
  have oks: "(\<forall>i \<in> {k..5}. ?ok i) \<longleftrightarrow> ?ok k \<and> (\<forall>i \<in> {k + 1..5}. ?ok i)"
  proof
    assume a: "\<forall>i \<in> {k..5}. ?ok i"
    with k5 have "?ok k" by auto
    moreover from a have "\<forall>i \<in> {k + 1..5}. ?ok i" by auto
    ultimately show "?ok k \<and> (\<forall>i \<in> {k + 1..5}. ?ok i)" by blast
  next
    assume a: "?ok k \<and> (\<forall>i \<in> {k + 1..5}. ?ok i)"
    show "\<forall>i \<in> {k..5}. ?ok i"
    proof
      fix i assume i: "i \<in> {k..5}"
      show "?ok i"
      proof (cases "i = k")
        case True
        with a show ?thesis by blast
      next
        case False
        with i have "i \<in> {k + 1..5}" by auto
        with a show ?thesis by blast
      qed
    qed
  qed
  have res: "validate_loop segments defn [k..5] prev rs = Inr (rs @ (fs @ gs))"
    using up st ih by simp
  have fail: "\<forall>r \<in> set (fs @ gs). \<not> passed r"
    using fsf gsf by auto
  have emp: "fs @ gs = [] \<longleftrightarrow>
         (k \<le> 5 \<and> k \<noteq> 0 \<longrightarrow> prev \<le> ?S k) \<and>
         (\<forall>i \<in> {k + 1..5}. ?S (i - 1) \<le> ?S i) \<and>
         (\<forall>i \<in> {k..5}. ?ok i)"
    unfolding asc oks using fse gse k5 k0 by auto
  from res fail emp show ?case by blast
qed

lemma validateClock_all_passed:
  assumes start: "0 \<le> startingSegmentIndex defn" and len: "6 \<le> length segments"
    and limit: "maxTotal defn \<noteq> Some 0"
  shows "\<exists>res. validateClock segments defn = Inr res \<and>
           (list_all passed res \<longleftrightarrow> fullValidation_spec segments defn)"
proof -
  let ?S = "slotSum_spec segments defn"
  define r0 where "r0 = concat (map (\<lambda>seg. if length (cards seg) = 0
                               then [\<lparr>passed = False, message = Some
                                      (''Segment '' @ show_int (seg_index seg + 1) @ '' is empty.'')\<rparr>]
                               else []) segments)"
  have r0f: "\<forall>r \<in> set r0. \<not> passed r" unfolding r0_def by auto
  have r0e: "r0 = [] \<longleftrightarrow> list_all (\<lambda>seg. cards seg \<noteq> []) segments"
    unfolding r0_def by (induction segments) auto
  from validate_loop_upto [OF start len, of 0 "- 1" r0]
  obtain fs where
    lp: "validate_loop segments defn [0..5] (- 1) r0 = Inr (r0 @ fs)"
    and fsf: "\<forall>r \<in> set fs. \<not> passed r"
    and fse: "fs = [] \<longleftrightarrow>
         (\<forall>i \<in> {0 + 1..5}. ?S (i - 1) \<le> ?S i) \<and>
         (\<forall>i \<in> {0..5}.
            (case maxTotal defn of None \<Rightarrow> True | Some m \<Rightarrow> m = 0 \<or> ?S i \<le> m) \<and>
            (case segmentRules defn ((startingSegmentIndex defn + i) mod 6) of
               None \<Rightarrow> True
             | Some rule \<Rightarrow>
                 passed (rule (segments ! nat ((startingSegmentIndex defn + i) mod 6)))))"
    by auto
  define gl where "gl = (case globalRules defn of
               Some g \<Rightarrow> (if \<not> passed (g segments) then [g segments] else [])
             | None \<Rightarrow> [])"
  have glf: "\<forall>r \<in> set gl. \<not> passed r"
    unfolding gl_def by (auto split: option.splits if_splits)
  have gle: "gl = [] \<longleftrightarrow> (case globalRules defn of None \<Rightarrow> True | Some g \<Rightarrow> passed (g segments))"
    unfolding gl_def by (auto split: option.splits)
  define every where "every = r0 @ fs @ gl"
  have up: "[0..TOTAL_SEGMENTS - 1] = [0..5]" by (simp add: TOTAL_SEGMENTS_def)
  have vc: "validateClock segments defn =
      Inr (if every = [] then [\<lparr>passed = True, message = Some ''Clock Validated Successfully!''\<rparr>]
           else every)"
    unfolding validateClock_def Let_def r0_def [symmetric] up lp every_def gl_def
    by (cases "globalRules defn") auto
  have allf: "\<forall>r \<in> set every. \<not> passed r"
    unfolding every_def using r0f fsf glf by auto
  have pass: "list_all passed (if every = []
                 then [\<lparr>passed = True, message = Some ''Clock Validated Successfully!''\<rparr>]
                 else every) \<longleftrightarrow> every = []"
  proof (cases "every = []")
    case True
    then show ?thesis by simp
  next
    case False
    then obtain r where "r \<in> set every" by (meson last_in_set)
    with allf have "\<not> list_all passed every" by (auto simp: list_all_iff)
    with False show ?thesis by simp
  qed
  have spec: "every = [] \<longleftrightarrow> fullValidation_spec segments defn"
  proof -
    have "every = [] \<longleftrightarrow> r0 = [] \<and> fs = [] \<and> gl = []"
      unfolding every_def by simp
    also have "\<dots> \<longleftrightarrow> fullValidation_spec segments defn"
      unfolding r0e fse gle fullValidation_spec_def
      using limit by (cases "maxTotal defn") (auto simp: list_all_iff)
    finally show ?thesis .
  qed
  from vc pass spec show ?thesis by simp
qed

section \<open>Properties\<close>

text \<open>
  C10. A call of the host's \<open>executePlayCard\<close> with target slot index \<open>s\<close> changes
  only slot \<open>s\<close> of the board: the board keeps its length, every other index holds the
  slot it held before, and slot \<open>s\<close> keeps its index field and its cards as a prefix,
  followed by exactly one new card, the played card with the given face flag and the
  player as owner. The React copy of the board is the same board. When \<open>s\<close> names no
  slot the call raises a TypeError and changes nothing.
\<close>

theorem executePlayCard_frame:
  "(case js_nth (clockSegments (gameStateRef h)) s of
      None \<Rightarrow> executePlayCard playerId crd s faceUp h = Inl TypeError
    | Some seg \<Rightarrow>
        (\<exists>h'. executePlayCard playerId crd s faceUp h = Inr h' \<and>
           clockSegments (ui h') = clockSegments (gameStateRef h') \<and>
           length (clockSegments (gameStateRef h')) = length (clockSegments (gameStateRef h)) \<and>
           (\<forall>j. j \<noteq> s \<longrightarrow>
              js_nth (clockSegments (gameStateRef h')) j = js_nth (clockSegments (gameStateRef h)) j) \<and>
           (\<exists>seg'. js_nth (clockSegments (gameStateRef h')) s = Some seg' \<and>
              seg_index seg' = seg_index seg \<and>
              cards seg' = cards seg @ [crd\<lparr>isFaceUp := faceUp, ownerId := Some playerId\<rparr>])))"
proof (cases "js_nth (clockSegments (gameStateRef h)) s")
  case None
  then show ?thesis by (simp add: executePlayCard_def)
next
  case (Some seg)
  then have rng: "0 \<le> s" "s < int (length (clockSegments (gameStateRef h)))"
    by (auto simp: js_nth_def split: if_splits)
  show ?thesis
    using Some rng
    by (simp add: executePlayCard_def Let_def startResolution_def js_nth_update)
qed

theorem executePlayCard_frame_witness:
  "js_nth (clockSegments (gameStateRef demoHost)) 2 = Some \<lparr>seg_index = 2, cards = []\<rparr> \<and>
   (\<exists>h'. executePlayCard ''user-a'' solar5 2 True demoHost = Inr h' \<and>
      js_nth (clockSegments (gameStateRef h')) 1 = Some \<lparr>seg_index = 1, cards = []\<rparr> \<and>
      js_nth (clockSegments (gameStateRef h')) 2 =
        Some \<lparr>seg_index = 2, cards = [solar5\<lparr>isFaceUp := True, ownerId := Some ''user-a''\<rparr>]\<rparr>)"
proof -
  have pre: "js_nth (clockSegments (gameStateRef demoHost)) 2 = Some \<lparr>seg_index = 2, cards = []\<rparr>"
    by (simp add: demoHost_def demoState_def emptyBoard_def js_nth_def)
  have one: "js_nth (clockSegments (gameStateRef demoHost)) 1 = Some \<lparr>seg_index = 1, cards = []\<rparr>"
    by (simp add: demoHost_def demoState_def emptyBoard_def js_nth_def)
  from executePlayCard_frame [where h = demoHost and s = 2 and playerId = "''user-a''"
      and crd = solar5 and faceUp = True]
  show ?thesis
    unfolding pre using one by auto
qed

text \<open>
  C1 (amended). The phase and the turn are checked where a move is submitted, in the
  click handler \<open>handleSegmentClick\<close> of the submitting node: when the phase is not
  PLACEMENT, or the participant at the current turn index is not the local participant,
  the handler returns without a move, without a message and with the node unchanged;
  when the turn index names no participant it raises a TypeError, which also changes
  nothing. The host passes a \<open>MOVE\<close> message to \<open>executePlayCard\<close> as it arrives.
\<close>

theorem click_checks_phase_and_turn:
  "(phase (ui h) \<noteq> PLACEMENT \<or>
    (\<exists>i p. currentPlayerIndex (ui h) = Some i \<and> js_nth (players (ui h)) i = Some p \<and>
            player_id p \<noteq> myPlayerId h)
    \<longrightarrow> handleSegmentClick s h = Inr (h, None)) \<and>
   (phase (ui h) = PLACEMENT \<and>
    (\<forall>i. currentPlayerIndex (ui h) = Some i \<longrightarrow> js_nth (players (ui h)) i = None)
    \<longrightarrow> handleSegmentClick s h = Inl TypeError) \<and>
   handleIncomingDataHost (MOVE playerId crd s faceUp) h = executePlayCard playerId crd s faceUp h"
  by (auto simp: handleSegmentClick_def handleIncomingDataHost_def split: option.splits)

theorem click_checks_phase_and_turn_witness:
  "phase (ui startHost) \<noteq> PLACEMENT \<and> handleSegmentClick 2 startHost = Inr (startHost, None) \<and>
   currentPlayerIndex (ui demoHost) = Some 0 \<and>
   js_nth (players (ui demoHost)) 0 = Some (players (ui demoHost) ! 0) \<and>
   player_id (players (ui demoHost) ! 0) \<noteq> ''user-b'' \<and>
   handleSegmentClick 2 (demoHost\<lparr>myPlayerId := ''user-b'', isHost := False\<rparr>)
     = Inr (demoHost\<lparr>myPlayerId := ''user-b'', isHost := False\<rparr>, None) \<and>
   handleSegmentClick 2 (demoHost\<lparr>ui := demoState\<lparr>currentPlayerIndex := None\<rparr>\<rparr>) = Inl TypeError"
proof -
  have a: "phase (ui startHost) \<noteq> PLACEMENT"
    by (simp add: demoHost_def demoState_def demoPlayers_def emptyBoard_def
      solar5_def lunar2_def solar8_def lunar9_def startHost_def)
  have b: "currentPlayerIndex (ui demoHost) = Some 0"
    "js_nth (players (ui demoHost)) 0 = Some (players (ui demoHost) ! 0)"
    "player_id (players (ui demoHost) ! 0) \<noteq> ''user-b''"
    by (simp_all add: demoHost_def demoState_def demoPlayers_def emptyBoard_def
      solar5_def lunar2_def solar8_def lunar9_def startHost_def js_nth_def)
  from click_checks_phase_and_turn [where h = startHost and s = 2] a
  have 1: "handleSegmentClick 2 startHost = Inr (startHost, None)" by blast
  from click_checks_phase_and_turn
         [where h = "demoHost\<lparr>myPlayerId := ''user-b'', isHost := False\<rparr>" and s = 2] b
  have 2: "handleSegmentClick 2 (demoHost\<lparr>myPlayerId := ''user-b'', isHost := False\<rparr>)
             = Inr (demoHost\<lparr>myPlayerId := ''user-b'', isHost := False\<rparr>, None)"
    by auto
  from click_checks_phase_and_turn
         [where h = "demoHost\<lparr>ui := demoState\<lparr>currentPlayerIndex := None\<rparr>\<rparr>" and s = 2]
  have 3: "handleSegmentClick 2 (demoHost\<lparr>ui := demoState\<lparr>currentPlayerIndex := None\<rparr>\<rparr>) = Inl TypeError"
    by (simp add: demoState_def)
  from a b 1 2 3 show ?thesis by simp
qed

text \<open>
  C1 as stated fails for network moves: \<open>handleIncomingDataHost\<close> applies a \<open>MOVE\<close>
  of a participant who is not at the current turn index (turn, hand and play counter
  change), and a \<open>MOVE\<close> that arrives while the phase is \<open>START_PLAYER_SELECTION\<close>.
\<close>

theorem move_not_checked_counterexample:
  "phase (gameStateRef demoHost) = PLACEMENT \<and>
   currentPlayerIndex (gameStateRef demoHost) = Some 0 \<and>
   player_id (players (gameStateRef demoHost) ! 0) = ''user-a'' \<and>
   \<not> isl (handleIncomingDataHost (MOVE ''user-b'' solar8 2 False) demoHost) \<and>
   currentPlayerIndex (gameStateRef (projr (handleIncomingDataHost (MOVE ''user-b'' solar8 2 False) demoHost)))
     = Some 2 \<and>
   hand (players (gameStateRef (projr (handleIncomingDataHost (MOVE ''user-b'' solar8 2 False) demoHost))) ! 1)
     = [] \<and>
   cardsPlayedCount (gameStateRef (projr (handleIncomingDataHost (MOVE ''user-b'' solar8 2 False) demoHost)))
     = 1 \<and>
   phase (gameStateRef startHost) = START_PLAYER_SELECTION \<and>
   \<not> isl (handleIncomingDataHost (MOVE ''user-a'' solar5 2 False) startHost) \<and>
   cardsPlayedCount (gameStateRef (projr (handleIncomingDataHost (MOVE ''user-a'' solar5 2 False) startHost)))
     = 1 \<and>
   hand (players (gameStateRef (projr (handleIncomingDataHost (MOVE ''user-a'' solar5 2 False) startHost))) ! 0)
     = [lunar2]"
  by (simp add: demoHost_def demoState_def demoPlayers_def emptyBoard_def
      solar5_def lunar2_def solar8_def lunar9_def startHost_def handleIncomingDataHost_def executePlayCard_def js_nth_def js_rem_def Let_def)

text \<open>
  C2 (amended). When the submitting participant is the first participant with that id and
  stands at the current turn index, the card's id occurs exactly once in that
  participant's hand and the target slot exists, \<open>executePlayCard\<close> applies the move:
  the turn index afterwards is \<open>(turnIndexBefore + 1) mod participantCount\<close>, in the
  ref and in the React state, and the hand of the participant who played has exactly one
  card fewer than before.
\<close>

theorem move_turn_and_hand:
  assumes turn: "currentPlayerIndex (gameStateRef h) = Some i"
    and submitter: "findIndex (\<lambda>p. player_id p = playerId) (players (gameStateRef h)) = i"
    and nonneg: "0 \<le> i"
    and once: "length (filter (\<lambda>c. card_id c = card_id crd)
                  (hand (players (gameStateRef h) ! nat i))) = 1"
    and slot: "js_nth (clockSegments (gameStateRef h)) s \<noteq> None"
  shows "\<exists>h'. executePlayCard playerId crd s faceUp h = Inr h' \<and>
           currentPlayerIndex (gameStateRef h') =
             Some ((i + 1) mod int (length (players (gameStateRef h)))) \<and>
           currentPlayerIndex (ui h') = currentPlayerIndex (gameStateRef h') \<and>
           length (players (gameStateRef h')) = length (players (gameStateRef h)) \<and>
           length (hand (players (gameStateRef h') ! nat i)) + 1 =
             length (hand (players (gameStateRef h) ! nat i))"
proof -
  let ?ps = "players (gameStateRef h)"
  from findIndex_found [of "\<lambda>p. player_id p = playerId" ?ps] submitter nonneg
  have lt: "i < int (length ?ps)" and pid: "player_id (?ps ! nat i) = playerId"
    by auto
  from lt nonneg have n: "0 < int (length ?ps)" by linarith
  from nonneg have rem: "js_rem (i + 1) (int (length ?ps)) = Some ((i + 1) mod int (length ?ps))"
    using n by (intro js_rem_nonneg) auto
  from lt nonneg have lt': "nat i < length ?ps" by linarith
  have len: "length (filter (\<lambda>c. card_id c \<noteq> card_id crd) (hand (?ps ! nat i))) + 1 =
             length (hand (?ps ! nat i))"
    using once sum_length_filter_compl [of "\<lambda>c. card_id c = card_id crd" "hand (?ps ! nat i)"]
    by simp
  from slot obtain seg where seg: "js_nth (clockSegments (gameStateRef h)) s = Some seg"
    by auto
  show ?thesis
    using seg submitter rem lt' pid len
    by (simp add: executePlayCard_def Let_def startResolution_def)
qed

theorem move_turn_and_hand_witness:
  "currentPlayerIndex (gameStateRef demoHost) = Some 0 \<and>
   (\<exists>h'. executePlayCard ''user-a'' solar5 2 False demoHost = Inr h' \<and>
      currentPlayerIndex (gameStateRef h') = Some 1 \<and>
      length (hand (players (gameStateRef h') ! 0)) + 1 = 2)"
proof -
  have turn: "currentPlayerIndex (gameStateRef demoHost) = Some 0"
    by (simp add: demoHost_def demoState_def demoPlayers_def emptyBoard_def
      solar5_def lunar2_def solar8_def lunar9_def)
  have submitter: "findIndex (\<lambda>p. player_id p = ''user-a'') (players (gameStateRef demoHost)) = 0"
    by (simp add: demoHost_def demoState_def demoPlayers_def emptyBoard_def
      solar5_def lunar2_def solar8_def lunar9_def)
  have once: "length (filter (\<lambda>c. card_id c = card_id solar5)
                  (hand (players (gameStateRef demoHost) ! nat 0))) = 1"
    by (simp add: demoHost_def demoState_def demoPlayers_def emptyBoard_def
      solar5_def lunar2_def solar8_def lunar9_def)
  have slot: "js_nth (clockSegments (gameStateRef demoHost)) 2 \<noteq> None"
    by (simp add: demoHost_def demoState_def demoPlayers_def emptyBoard_def
      solar5_def lunar2_def solar8_def lunar9_def js_nth_def)
  have n: "length (players (gameStateRef demoHost)) = 3"
    and hnd: "length (hand (players (gameStateRef demoHost) ! 0)) = 2"
    by (simp_all add: demoHost_def demoState_def demoPlayers_def emptyBoard_def
      solar5_def lunar2_def solar8_def lunar9_def)
  from move_turn_and_hand [OF turn submitter _ once slot, of False] turn n hnd
  show ?thesis by auto
qed

text \<open>
  C2 as stated fails for moves that \<open>executePlayCard\<close> applies all the same: it advances
  the turn from the index of the submitter, not from the turn index, and it removes from
  the hand the cards with the played card's id, of which there may be none. With the turn
  at index 0 of three participants, a move of the participant at index 1 leaves the turn
  at index 2, not 1; and a card that the participant at index 0 does not hold leaves that
  hand at its size.
\<close>

theorem move_turn_and_hand_counterexample:
  "currentPlayerIndex (gameStateRef demoHost) = Some 0 \<and>
   length (players (gameStateRef demoHost)) = 3 \<and>
   \<not> isl (executePlayCard ''user-b'' solar8 2 False demoHost) \<and>
   currentPlayerIndex (gameStateRef (projr (executePlayCard ''user-b'' solar8 2 False demoHost)))
     = Some 2 \<and>
   (0 + 1) mod 3 \<noteq> (2 :: int) \<and>
   \<not> isl (executePlayCard ''user-a'' lunar9 2 False demoHost) \<and>
   length (hand (players (gameStateRef (projr (executePlayCard ''user-a'' lunar9 2 False demoHost))) ! 0))
     = length (hand (players (gameStateRef demoHost) ! 0))"
  by (simp add: demoHost_def demoState_def demoPlayers_def emptyBoard_def
      solar5_def lunar2_def solar8_def lunar9_def executePlayCard_def js_nth_def js_rem_def Let_def)

text \<open>
  C3 (amended). The face-up limit is enforced where a move is submitted, in the click
  handler of the application components that check it (\<open>handleSegmentClick\<close> of
  \<^verbatim>\<open>src/unnamed/part_001\<close>): a click that requests face-up while the face-up counter has
  reached the participant count is rejected with no change of the game state and no
  message (or the handler raises, changing nothing). Hence a click on a node whose ref and
  React state agree keeps the counter at or below the participant count.
\<close>

theorem click_enforces_face_up_limit:
  "(playFaceUp h \<and> faceUpTokensUsed (ui h) \<ge> int (length (players (ui h))) \<longrightarrow>
      handleSegmentClick_part_001 s h = Inl TypeError \<or>
      (\<exists>h'. handleSegmentClick_part_001 s h = Inr (h', None) \<and>
            ui h' = ui h \<and> gameStateRef h' = gameStateRef h)) \<and>
   (gameStateRef h = ui h \<and> faceUpTokensUsed (ui h) \<le> int (length (players (ui h))) \<and>
    handleSegmentClick_part_001 s h = Inr (h', m) \<longrightarrow>
      faceUpTokensUsed (ui h') \<le> int (length (players (ui h'))))"
proof (intro conjI impI)
  assume "playFaceUp h \<and> faceUpTokensUsed (ui h) \<ge> int (length (players (ui h)))"
  then show "handleSegmentClick_part_001 s h = Inl TypeError \<or>
      (\<exists>h'. handleSegmentClick_part_001 s h = Inr (h', None) \<and>
            ui h' = ui h \<and> gameStateRef h' = gameStateRef h)"
    by (auto simp: handleSegmentClick_part_001_def Let_def split: option.splits)
next
  assume a: "gameStateRef h = ui h \<and> faceUpTokensUsed (ui h) \<le> int (length (players (ui h))) \<and>
    handleSegmentClick_part_001 s h = Inr (h', m)"
  then show "faceUpTokensUsed (ui h') \<le> int (length (players (ui h')))"
    by (auto simp: handleSegmentClick_part_001_def Let_def
        split: option.splits if_splits sum.splits
        dest!: executePlayCard_part_001_counter)
qed

theorem click_enforces_face_up_limit_witness:
  "playFaceUp limitHost \<and>
   faceUpTokensUsed (ui limitHost) \<ge> int (length (players (ui limitHost))) \<and>
   handleSegmentClick_part_001 3 limitHost =
     Inr (limitHost\<lparr>feedback := ''Limit of 3 Face-Up cards reached.''\<rparr>, None) \<and>
   gameStateRef demoHost = ui demoHost \<and>
   faceUpTokensUsed (ui demoHost) \<le> int (length (players (ui demoHost))) \<and>
   \<not> isl (handleSegmentClick_part_001 2 (demoHost\<lparr>playFaceUp := True\<rparr>)) \<and>
   faceUpTokensUsed (ui (fst (projr (handleSegmentClick_part_001 2 (demoHost\<lparr>playFaceUp := True\<rparr>)))))
     = 1 \<and>
   faceUpTokensUsed (ui (fst (projr (handleSegmentClick_part_001 2 (demoHost\<lparr>playFaceUp := True\<rparr>)))))
     \<le> int (length (players (ui (fst (projr (handleSegmentClick_part_001 2 (demoHost\<lparr>playFaceUp := True\<rparr>)))))))"
proof -
  have a: "playFaceUp limitHost"
    "faceUpTokensUsed (ui limitHost) \<ge> int (length (players (ui limitHost)))"
    by (simp_all add: demoHost_def demoState_def demoPlayers_def emptyBoard_def
      solar5_def lunar2_def solar8_def lunar9_def limitState_def limitHost_def)
  have ev1: "handleSegmentClick_part_001 3 limitHost =
     Inr (limitHost\<lparr>feedback := ''Limit of 3 Face-Up cards reached.''\<rparr>, None)"
    by (simp add: demoHost_def demoState_def demoPlayers_def emptyBoard_def
      solar5_def lunar2_def solar8_def lunar9_def limitState_def limitHost_def handleSegmentClick_part_001_def js_nth_def Let_def show_int_def
        show_nat.simps)
  from click_enforces_face_up_limit [where h = limitHost and s = 3] a
  have "handleSegmentClick_part_001 3 limitHost = Inl TypeError \<or>
      (\<exists>h'. handleSegmentClick_part_001 3 limitHost = Inr (h', None) \<and>
            ui h' = ui limitHost \<and> gameStateRef h' = gameStateRef limitHost)"
    by blast
  let ?h = "demoHost\<lparr>playFaceUp := True\<rparr>"
  have b: "gameStateRef demoHost = ui demoHost"
    "faceUpTokensUsed (ui demoHost) \<le> int (length (players (ui demoHost)))"
    by (simp_all add: demoHost_def demoState_def demoPlayers_def emptyBoard_def
      solar5_def lunar2_def solar8_def lunar9_def limitState_def limitHost_def)
  have ev2: "\<not> isl (handleSegmentClick_part_001 2 ?h)"
    "faceUpTokensUsed (ui (fst (projr (handleSegmentClick_part_001 2 ?h)))) = 1"
    by (simp_all add: demoHost_def demoState_def demoPlayers_def emptyBoard_def
      solar5_def lunar2_def solar8_def lunar9_def limitState_def limitHost_def handleSegmentClick_part_001_def executePlayCard_part_001_def
        clock_c1_2_def js_nth_def js_rem_def Let_def)
  from ev2 have ex: "handleSegmentClick_part_001 2 ?h =
      Inr (fst (projr (handleSegmentClick_part_001 2 ?h)), snd (projr (handleSegmentClick_part_001 2 ?h)))"
    by (cases "handleSegmentClick_part_001 2 ?h") auto
  from click_enforces_face_up_limit [where h = ?h and s = 2
      and h' = "fst (projr (handleSegmentClick_part_001 2 ?h))"
      and m = "snd (projr (handleSegmentClick_part_001 2 ?h))"] b ex
  have "faceUpTokensUsed (ui (fst (projr (handleSegmentClick_part_001 2 ?h))))
     \<le> int (length (players (ui (fst (projr (handleSegmentClick_part_001 2 ?h))))))"
    by simp
  with a b ev1 ev2 show ?thesis by simp
qed

text \<open>
  C3 as stated fails on the authoritative node: with three participants and the face-up
  counter at 3, \<open>handleIncomingDataHost\<close> applies a face-up \<open>MOVE\<close> and the counter
  becomes 4; so does the click handler of the same component, which has no limit check.
\<close>

theorem face_up_limit_counterexample:
  "faceUpTokensUsed (gameStateRef limitHost) = 3 \<and>
   length (players (gameStateRef limitHost)) = 3 \<and>
   \<not> isl (handleIncomingDataHost (MOVE ''user-a'' solar5 3 True) limitHost) \<and>
   faceUpTokensUsed (gameStateRef (projr (handleIncomingDataHost (MOVE ''user-a'' solar5 3 True) limitHost)))
     = 4 \<and>
   length (players (gameStateRef (projr (handleIncomingDataHost (MOVE ''user-a'' solar5 3 True) limitHost))))
     = 3 \<and>
   playFaceUp limitHost \<and>
   \<not> isl (handleSegmentClick 3 limitHost) \<and>
   faceUpTokensUsed (gameStateRef (fst (projr (handleSegmentClick 3 limitHost)))) = 4"
  by (simp add: demoHost_def demoState_def demoPlayers_def emptyBoard_def
      solar5_def lunar2_def solar8_def lunar9_def limitState_def limitHost_def handleIncomingDataHost_def handleSegmentClick_def executePlayCard_def
      startResolution_def clock_c1_2_def js_nth_def js_rem_def Let_def)

text \<open>
  C5 (amended). The host applies a \<open>CLAIM_START\<close> message of a known participant by
  setting the turn index to the claimant's index and the phase to PLACEMENT, in the ref
  and in the React state; a claim of an unknown identity changes nothing. Only the local
  claim button is guarded by the phase: \<open>handleClaimStart\<close> does nothing unless the
  node's phase is \<open>START_PLAYER_SELECTION\<close>.
\<close>

theorem claim_start_sets_turn:
  "(\<exists>h'. handleIncomingDataHost (CLAIM_START playerId nm) h = Inr h' \<and>
      (findIndex (\<lambda>p. player_id p = playerId) (players (gameStateRef h)) \<noteq> - 1 \<longrightarrow>
         phase (gameStateRef h') = PLACEMENT \<and> phase (ui h') = PLACEMENT \<and>
         currentPlayerIndex (gameStateRef h') =
           Some (findIndex (\<lambda>p. player_id p = playerId) (players (gameStateRef h))) \<and>
         currentPlayerIndex (ui h') = currentPlayerIndex (gameStateRef h')) \<and>
      (findIndex (\<lambda>p. player_id p = playerId) (players (gameStateRef h)) = - 1 \<longrightarrow> h' = h)) \<and>
   (phase (ui h) \<noteq> START_PLAYER_SELECTION \<longrightarrow> handleClaimStart h = (h, None))"
proof -
  let ?i = "findIndex (\<lambda>p. player_id p = playerId) (players (gameStateRef h))"
  have "?i \<noteq> - 1 \<Longrightarrow> js_nth (players (gameStateRef h)) ?i \<noteq> None"
    using findIndex_ge [of "\<lambda>p. player_id p = playerId" "players (gameStateRef h)"]
      findIndex_found [of "\<lambda>p. player_id p = playerId" "players (gameStateRef h)"]
    by (auto simp: js_nth_def)
  then show ?thesis
    by (auto simp: handleIncomingDataHost_def handleClaimStart_def startGamePhase_def Let_def)
qed

theorem claim_start_sets_turn_witness:
  "findIndex (\<lambda>p. player_id p = ''user-b'') (players (gameStateRef startHost)) = 1 \<and>
   \<not> isl (handleIncomingDataHost (CLAIM_START ''user-b'' ''Bob'') startHost) \<and>
   phase (gameStateRef (projr (handleIncomingDataHost (CLAIM_START ''user-b'' ''Bob'') startHost)))
     = PLACEMENT \<and>
   currentPlayerIndex (gameStateRef (projr (handleIncomingDataHost (CLAIM_START ''user-b'' ''Bob'') startHost)))
     = Some 1 \<and>
   findIndex (\<lambda>p. player_id p = ''user-z'') (players (gameStateRef startHost)) = - 1 \<and>
   handleIncomingDataHost (CLAIM_START ''user-z'' ''Zed'') startHost = Inr startHost \<and>
   phase (ui demoHost) \<noteq> START_PLAYER_SELECTION \<and>
   handleClaimStart demoHost = (demoHost, None)"
proof -
  have i1: "findIndex (\<lambda>p. player_id p = ''user-b'') (players (gameStateRef startHost)) = 1"
    and i2: "findIndex (\<lambda>p. player_id p = ''user-z'') (players (gameStateRef startHost)) = - 1"
    and ph: "phase (ui demoHost) \<noteq> START_PLAYER_SELECTION"
    by (simp_all add: demoHost_def demoState_def demoPlayers_def emptyBoard_def
      solar5_def lunar2_def solar8_def lunar9_def startHost_def)
  from claim_start_sets_turn [where h = startHost and playerId = "''user-b''" and nm = "''Bob''"] i1
  have 1: "\<not> isl (handleIncomingDataHost (CLAIM_START ''user-b'' ''Bob'') startHost) \<and>
   phase (gameStateRef (projr (handleIncomingDataHost (CLAIM_START ''user-b'' ''Bob'') startHost)))
     = PLACEMENT \<and>
   currentPlayerIndex (gameStateRef (projr (handleIncomingDataHost (CLAIM_START ''user-b'' ''Bob'') startHost)))
     = Some 1"
    by auto
  from claim_start_sets_turn [where h = startHost and playerId = "''user-z''" and nm = "''Zed''"] i2
  have 2: "handleIncomingDataHost (CLAIM_START ''user-z'' ''Zed'') startHost = Inr startHost"
    by auto
  from claim_start_sets_turn [where h = demoHost] ph
  have 3: "handleClaimStart demoHost = (demoHost, None)"
    by blast
  from i1 i2 ph 1 2 3 show ?thesis by simp
qed

text \<open>
  C5 as stated fails for a second network claim: after the first claim has set the turn
  index to 0 and the phase to PLACEMENT, a \<open>CLAIM_START\<close> of the participant at index 1
  sets the turn index to 1.
\<close>

theorem later_claim_counterexample:
  "phase (gameStateRef startHost) = START_PLAYER_SELECTION \<and>
   \<not> isl (handleIncomingDataHost (CLAIM_START ''user-a'' ''Ann'') startHost) \<and>
   phase (gameStateRef (projr (handleIncomingDataHost (CLAIM_START ''user-a'' ''Ann'') startHost)))
     = PLACEMENT \<and>
   currentPlayerIndex (gameStateRef (projr (handleIncomingDataHost (CLAIM_START ''user-a'' ''Ann'') startHost)))
     = Some 0 \<and>
   \<not> isl (handleIncomingDataHost (CLAIM_START ''user-b'' ''Bob'')
            (projr (handleIncomingDataHost (CLAIM_START ''user-a'' ''Ann'') startHost))) \<and>
   currentPlayerIndex (gameStateRef (projr (handleIncomingDataHost (CLAIM_START ''user-b'' ''Bob'')
            (projr (handleIncomingDataHost (CLAIM_START ''user-a'' ''Ann'') startHost)))))
     = Some 1"
  by (simp add: demoHost_def demoState_def demoPlayers_def emptyBoard_def
      solar5_def lunar2_def solar8_def lunar9_def startHost_def handleIncomingDataHost_def startGamePhase_def js_nth_def Let_def)

text \<open>
  C9. When the host receives \<open>JOIN\<close> while its phase is not LOBBY, the game state (ref
  and React state) is unchanged, and the reply on the joining channel is a
  \<open>STATE_UPDATE\<close> with the current snapshot if the identity is the id of a participant,
  and an \<open>ERROR\<close> message otherwise.
\<close>

theorem join_after_lobby:
  assumes "phase (gameStateRef h) \<noteq> LOBBY"
  shows "\<exists>h' reply. handleHostConnection connection (JOIN pid nm) h = Inr (h', reply) \<and>
           gameStateRef h' = gameStateRef h \<and> ui h' = ui h \<and>
           ((\<exists>p \<in> set (players (gameStateRef h)). player_id p = pid) \<longrightarrow>
              reply = Some (STATE_UPDATE (def_id (activeClockDef h), gameStateRef h))) \<and>
           (\<not> (\<exists>p \<in> set (players (gameStateRef h)). player_id p = pid) \<longrightarrow>
              (\<exists>msg. reply = Some (ERROR msg)))"
proof (cases "find (\<lambda>p. player_id p = pid) (players (gameStateRef h))")
  case None
  then have "\<not> (\<exists>p \<in> set (players (gameStateRef h)). player_id p = pid)"
    by (simp add: find_None_iff)
  with None assms show ?thesis
    by (simp add: handleHostConnection_def Let_def)
next
  case (Some p)
  then have "\<exists>p \<in> set (players (gameStateRef h)). player_id p = pid"
    by (auto simp: find_Some_iff)
  with Some assms show ?thesis
    by (simp add: handleHostConnection_def sanitizeStateForNetwork_def Let_def)
qed

theorem join_after_lobby_witness:
  "phase (gameStateRef demoHost) \<noteq> LOBBY \<and>
   \<not> isl (handleHostConnection 7 (JOIN ''user-b'' ''Bob'') demoHost) \<and>
   snd (projr (handleHostConnection 7 (JOIN ''user-b'' ''Bob'') demoHost))
     = Some (STATE_UPDATE (''c1-2'', demoState)) \<and>
   gameStateRef (fst (projr (handleHostConnection 7 (JOIN ''user-b'' ''Bob'') demoHost))) = demoState \<and>
   snd (projr (handleHostConnection 7 (JOIN ''user-z'' ''Zed'') demoHost))
     = Some (ERROR ''Game already in progress.'') \<and>
   gameStateRef (fst (projr (handleHostConnection 7 (JOIN ''user-z'' ''Zed'') demoHost))) = demoState"
proof -
  have ph: "phase (gameStateRef demoHost) \<noteq> LOBBY"
    by (simp add: demoHost_def demoState_def demoPlayers_def emptyBoard_def
      solar5_def lunar2_def solar8_def lunar9_def)
  have known: "\<exists>p \<in> set (players (gameStateRef demoHost)). player_id p = ''user-b''"
    and unknown: "\<not> (\<exists>p \<in> set (players (gameStateRef demoHost)). player_id p = ''user-z'')"
    by (simp_all add: demoHost_def demoState_def demoPlayers_def emptyBoard_def
      solar5_def lunar2_def solar8_def lunar9_def)
  have ids: "def_id (activeClockDef demoHost) = ''c1-2''" "gameStateRef demoHost = demoState"
    by (simp_all add: demoHost_def clock_c1_2_def)
  have msg: "snd (projr (handleHostConnection 7 (JOIN ''user-z'' ''Zed'') demoHost))
     = Some (ERROR ''Game already in progress.'')"
    by (simp add: demoHost_def demoState_def demoPlayers_def emptyBoard_def
      solar5_def lunar2_def solar8_def lunar9_def handleHostConnection_def Let_def)
  from join_after_lobby [OF ph, of 7 "''user-b''" "''Bob''"] known ids
  have 1: "\<not> isl (handleHostConnection 7 (JOIN ''user-b'' ''Bob'') demoHost) \<and>
   snd (projr (handleHostConnection 7 (JOIN ''user-b'' ''Bob'') demoHost))
     = Some (STATE_UPDATE (''c1-2'', demoState)) \<and>
   gameStateRef (fst (projr (handleHostConnection 7 (JOIN ''user-b'' ''Bob'') demoHost))) = demoState"
    by auto
  from join_after_lobby [OF ph, of 7 "''user-z''" "''Zed''"] unknown ids
  have 2: "gameStateRef (fst (projr (handleHostConnection 7 (JOIN ''user-z'' ''Zed'') demoHost))) = demoState"
    by auto
  from ph 1 2 msg show ?thesis by simp
qed

text \<open>
  C4 (amended). When the hand is non-empty and no pair of a card in the hand and a slot
  \<open>0 .. 5\<close> passes the mission's placement restriction, \<open>findBestBotMove\<close> returns the
  first card of the hand paired with a random slot index
  \<open>Math.floor(Math.random() * 6)\<close>, which lies in \<open>0 .. 5\<close>; and it returns none
  exactly when the hand is empty. The bot effect then plays exactly that move: its own
  fallback to slot 0 needs a non-empty hand without a move, which never occurs.
\<close>

theorem bot_fallback:
  "((\<forall>crd \<in> set hnd. \<forall>i \<in> {0..5}. \<not> isValidMove crd i segments defn n) \<and> hnd \<noteq> [] \<longrightarrow>
      findBestBotMove r hnd segments defn n = Some (hd hnd, int (random_index r 6))) \<and>
   (0 \<le> r \<and> r < 1 \<longrightarrow> random_index r 6 < 6) \<and>
   (findBestBotMove r hnd segments defn n = None \<longleftrightarrow> hnd = []) \<and>
   (isHost h \<and> phase (ui h) = PLACEMENT \<and> currentPlayerIndex (ui h) = Some i \<and>
    js_nth (players (ui h)) i = Some currentP \<and> \<not> isLocal currentP \<and>
    take 3 (player_id currentP) = ''bot'' \<and>
    find (\<lambda>p. player_id p = player_id currentP) (players (gameStateRef h)) = Some botPlayer \<and>
    hand botPlayer \<noteq> [] \<and>
    (\<forall>crd \<in> set (hand botPlayer). \<forall>k \<in> {0..5}.
        \<not> isValidMove crd k (clockSegments (gameStateRef h)) (activeClockDef h)
             (cardsPlayedCount (gameStateRef h)))
    \<longrightarrow> botEffect r h =
          executePlayCard (player_id botPlayer) (hd (hand botPlayer))
            (int (random_index r 6)) False h)"
proof -
  have fb: "findBestBotMove r hnd' segments' defn' n' = Some (hd hnd', int (random_index r 6))"
    if a: "\<forall>crd \<in> set hnd'. \<forall>i \<in> {0..5}. \<not> isValidMove crd i segments' defn' n'"
      and ne: "hnd' \<noteq> []" for hnd' segments' defn' n'
  proof -
    from a have "\<forall>crd \<in> set hnd'. filter (\<lambda>i. isValidMove crd i segments' defn' n') [0..5] = []"
      by (auto simp: filter_empty_conv)
    then have "concat (map (\<lambda>crd. map (\<lambda>i. (crd, i))
                  (filter (\<lambda>i. isValidMove crd i segments' defn' n') [0..5])) hnd') = []"
      by simp
    with ne show ?thesis
      by (simp add: findBestBotMove_def TOTAL_SEGMENTS_def hd_conv_nth)
  qed
  have 1: "(\<forall>crd \<in> set hnd. \<forall>i \<in> {0..5}. \<not> isValidMove crd i segments defn n) \<and> hnd \<noteq> [] \<longrightarrow>
      findBestBotMove r hnd segments defn n = Some (hd hnd, int (random_index r 6))"
    using fb by blast
  have 2: "0 \<le> r \<and> r < 1 \<longrightarrow> random_index r 6 < 6"
    by (simp add: random_index_less)
  have 3: "findBestBotMove r hnd segments defn n = None \<longleftrightarrow> hnd = []"
    by (simp add: findBestBotMove_def Let_def)
  have 4: "isHost h \<and> phase (ui h) = PLACEMENT \<and> currentPlayerIndex (ui h) = Some i \<and>
    js_nth (players (ui h)) i = Some currentP \<and> \<not> isLocal currentP \<and>
    take 3 (player_id currentP) = ''bot'' \<and>
    find (\<lambda>p. player_id p = player_id currentP) (players (gameStateRef h)) = Some botPlayer \<and>
    hand botPlayer \<noteq> [] \<and>
    (\<forall>crd \<in> set (hand botPlayer). \<forall>k \<in> {0..5}.
        \<not> isValidMove crd k (clockSegments (gameStateRef h)) (activeClockDef h)
             (cardsPlayedCount (gameStateRef h)))
    \<longrightarrow> botEffect r h =
          executePlayCard (player_id botPlayer) (hd (hand botPlayer))
            (int (random_index r 6)) False h"
  proof
    assume a: "isHost h \<and> phase (ui h) = PLACEMENT \<and> currentPlayerIndex (ui h) = Some i \<and>
      js_nth (players (ui h)) i = Some currentP \<and> \<not> isLocal currentP \<and>
      take 3 (player_id currentP) = ''bot'' \<and>
      find (\<lambda>p. player_id p = player_id currentP) (players (gameStateRef h)) = Some botPlayer \<and>
      hand botPlayer \<noteq> [] \<and>
      (\<forall>crd \<in> set (hand botPlayer). \<forall>k \<in> {0..5}.
          \<not> isValidMove crd k (clockSegments (gameStateRef h)) (activeClockDef h)
               (cardsPlayedCount (gameStateRef h)))"
    then have "findBestBotMove r (hand botPlayer) (clockSegments (gameStateRef h))
                 (activeClockDef h) (cardsPlayedCount (gameStateRef h)) =
               Some (hd (hand botPlayer), int (random_index r 6))"
      by (intro fb) auto
    with a show "botEffect r h =
          executePlayCard (player_id botPlayer) (hd (hand botPlayer))
            (int (random_index r 6)) False h"
      by (simp add: botEffect_def Let_def)
  qed
  from 1 2 3 4 show ?thesis by blast
qed

theorem bot_fallback_witness:
  "\<not> isValidMove solar5 0 emptyBoard rejectAll 0 \<and>
   findBestBotMove (1/2) [solar5] emptyBoard rejectAll 0 = Some (solar5, 3) \<and>
   random_index (1/2) 6 < 6 \<and>
   findBestBotMove (1/2) [] emptyBoard rejectAll 0 = None \<and>
   js_nth (players (ui botHost)) 2 = Some (demoPlayers ! 2) \<and>
   hand (demoPlayers ! 2) = [lunar9] \<and>
   botEffect (1/2) botHost = executePlayCard ''bot-2'' lunar9 3 False botHost"
proof -
  have inv: "\<forall>crd \<in> set [solar5]. \<forall>i \<in> {0..5}. \<not> isValidMove crd i emptyBoard rejectAll 0"
    by (simp add: isValidMove_def rejectAll_def)
  have ri: "random_index (1/2) 6 = 3"
    by (simp add: random_index_def)
  from bot_fallback [where hnd = "[solar5]" and segments = emptyBoard and defn = rejectAll
      and n = 0 and r = "1/2"] inv ri
  have 1: "findBestBotMove (1/2) [solar5] emptyBoard rejectAll 0 = Some (solar5, 3)"
    and 2: "random_index (1/2) 6 < 6"
    by simp_all
  from bot_fallback [where hnd = "[]" and segments = emptyBoard and defn = rejectAll
      and n = 0 and r = "1/2"]
  have 3: "findBestBotMove (1/2) [] emptyBoard rejectAll 0 = None"
    by simp
  have pre: "isHost botHost" "phase (ui botHost) = PLACEMENT"
    "currentPlayerIndex (ui botHost) = Some 2"
    "js_nth (players (ui botHost)) 2 = Some (demoPlayers ! 2)"
    "\<not> isLocal (demoPlayers ! 2)" "take 3 (player_id (demoPlayers ! 2)) = ''bot''"
    "find (\<lambda>p. player_id p = player_id (demoPlayers ! 2)) (players (gameStateRef botHost))
       = Some (demoPlayers ! 2)"
    "hand (demoPlayers ! 2) = [lunar9]" "player_id (demoPlayers ! 2) = ''bot-2''"
    "\<forall>crd \<in> set (hand (demoPlayers ! 2)). \<forall>k \<in> {0..5}.
        \<not> isValidMove crd k (clockSegments (gameStateRef botHost)) (activeClockDef botHost)
             (cardsPlayedCount (gameStateRef botHost))"
    by (simp_all add: botHost_def demoHost_def demoState_def demoPlayers_def js_nth_def
        isValidMove_def rejectAll_def)
  from bot_fallback [where h = botHost and i = 2 and currentP = "demoPlayers ! 2"
      and botPlayer = "demoPlayers ! 2" and r = "1/2"] pre ri
  have 4: "botEffect (1/2) botHost = executePlayCard ''bot-2'' lunar9 3 False botHost"
    by simp
  from inv 1 2 3 4 pre show ?thesis by simp
qed

text \<open>
  C4 as stated fails on the slot: with a mission that accepts nothing and
  \<open>Math.random\<close> returning 0.5, the selector pairs the first card with slot 3, not 0,
  and the bot effect puts the bot's card into slot 3 and leaves slot 0 empty.
\<close>

theorem bot_fallback_counterexample:
  "[solar5] \<noteq> [] \<and>
   \<not> isValidMove solar5 0 emptyBoard rejectAll 0 \<and> \<not> isValidMove solar5 1 emptyBoard rejectAll 0 \<and>
   \<not> isValidMove solar5 2 emptyBoard rejectAll 0 \<and> \<not> isValidMove solar5 3 emptyBoard rejectAll 0 \<and>
   \<not> isValidMove solar5 4 emptyBoard rejectAll 0 \<and> \<not> isValidMove solar5 5 emptyBoard rejectAll 0 \<and>
   findBestBotMove (1/2) [solar5] emptyBoard rejectAll 0 = Some (solar5, 3) \<and>
   findBestBotMove (1/2) [solar5] emptyBoard rejectAll 0 \<noteq> Some (solar5, 0) \<and>
   \<not> isl (botEffect (1/2) botHost) \<and>
   cards (clockSegments (gameStateRef (projr (botEffect (1/2) botHost))) ! 0) = [] \<and>
   cards (clockSegments (gameStateRef (projr (botEffect (1/2) botHost))) ! 3)
     = [lunar9\<lparr>ownerId := Some ''bot-2''\<rparr>]"
  by (simp add: findBestBotMove_def isValidMove_def rejectAll_def TOTAL_SEGMENTS_def
      random_index_def upto.simps botEffect_def botHost_def demoHost_def demoState_def
      demoPlayers_def emptyBoard_def executePlayCard_def js_nth_def js_rem_def Let_def
      solar5_def lunar2_def solar8_def lunar9_def)

text \<open>
  C6. For every deck of at least 12 cards (a shuffled deck has 24) and every participant
  count the game deals for (2, 3 or 4; the lobby offers 3 and 4), \<open>dealCards\<close> gives
  one hand per participant, each of \<open>12 div count\<close> cards (4 each at 3 participants,
  3 each at 4), and the hands in order are exactly the first 12 cards of the deck: the
  dealt total is 12 and the cards beyond it are not dealt.
\<close>

theorem deal_twelve:
  assumes "playerCount \<in> {2, 3, 4}" and "12 \<le> length deck"
  shows "length (dealCards deck playerCount) = playerCount \<and>
         (\<forall>h \<in> set (dealCards deck playerCount). length h = 12 div playerCount) \<and>
         concat (dealCards deck playerCount) = take 12 deck"
proof -
  from assms(1) consider "playerCount = 2" | "playerCount = 3" | "playerCount = 4" by auto
  then show ?thesis
  proof cases
    case 1
    with assms(2) deal_outer_eq [of 0 2 6 deck] show ?thesis
      by (simp add: dealCards_def)
  next
    case 2
    with assms(2) deal_outer_eq [of 0 3 4 deck] show ?thesis
      by (simp add: dealCards_def)
  next
    case 3
    with assms(2) deal_outer_eq [of 0 4 3 deck] show ?thesis
      by (simp add: dealCards_def)
  qed
qed

theorem deal_twelve_witness:
  "(3::nat) \<in> {2, 3, 4} \<and> 12 \<le> length freshDeck \<and>
   map length (dealCards freshDeck 3) = [4, 4, 4] \<and>
   concat (dealCards freshDeck 3) = take 12 freshDeck \<and>
   (4::nat) \<in> {2, 3, 4} \<and>
   map length (dealCards freshDeck 4) = [3, 3, 3, 3] \<and>
   length (concat (dealCards freshDeck 4)) = 12"
proof -
  have a: "(3::nat) \<in> {2, 3, 4}" "(4::nat) \<in> {2, 3, 4}" by simp_all
  have b: "12 \<le> length freshDeck" by (simp add: length_freshDeck)
  from deal_twelve [OF a(1) b]
  have three: "length (dealCards freshDeck 3) = 3"
    "\<forall>h \<in> set (dealCards freshDeck 3). length h = 4"
    "concat (dealCards freshDeck 3) = take 12 freshDeck"
    by simp_all
  from three(1) obtain h1 h2 h3 where d3: "dealCards freshDeck 3 = [h1, h2, h3]"
    by (auto simp: length_Suc_conv numeral_3_eq_3)
  from three(2) have m3: "map length (dealCards freshDeck 3) = [4, 4, 4]"
    unfolding d3 by simp
  from deal_twelve [OF a(2) b]
  have four: "length (dealCards freshDeck 4) = 4"
    "\<forall>h \<in> set (dealCards freshDeck 4). length h = 3"
    "concat (dealCards freshDeck 4) = take 12 freshDeck"
    by simp_all
  from four(1) obtain g1 g2 g3 g4 where d4: "dealCards freshDeck 4 = [g1, g2, g3, g4]"
    by (auto simp: length_Suc_conv eval_nat_numeral)
  from four(2) have m4: "map length (dealCards freshDeck 4) = [3, 3, 3, 3]"
    unfolding d4 by simp
  from a b m3 three(3) m4 four(3) show ?thesis
    by (simp add: length_freshDeck)
qed

text \<open>
  C7. In the resolution phase with the cursor \<open>c\<close> in \<open>0 .. 5\<close> on an existing slot,
  one tick appends exactly one verdict for slot \<open>c\<close> to the verdict list and advances
  the cursor by one (on the host also in the ref). The verdict fails with message
  \<open>Empty\<close> if the slot holds no card; otherwise it fails if the mission has a rule for
  slot \<open>c\<close> and the rule fails; otherwise, for \<open>c > 0\<close>, it fails with message
  \<open>Not Ascending\<close> exactly when the sum of slot \<open>c\<close> is strictly below the sum of slot
  \<open>c - 1\<close>; otherwise it passes.
\<close>

theorem resolution_tick:
  assumes ph: "phase (ui h) = RESOLUTION"
    and step: "resolutionStep (ui h) = c" "0 \<le> c" "c < 6"
    and slot: "js_nth (clockSegments (ui h)) c = Some seg"
  shows "\<exists>h' v. resolutionEffect h = Inr h' \<and>
           resolutionResults (ui h') = resolutionResults (ui h) @ [v] \<and>
           resolutionStep (ui h') = c + 1 \<and>
           (isHost h \<longrightarrow> resolutionResults (gameStateRef h') = resolutionResults (ui h) @ [v] \<and>
                         resolutionStep (gameStateRef h') = c + 1) \<and>
           res_index v = c \<and>
           (cards seg = [] \<longrightarrow> \<not> res_passed v \<and> res_message v = ''Empty'') \<and>
           (cards seg \<noteq> [] \<and>
            (\<exists>rule. segmentRules (activeClockDef h) c = Some rule \<and> \<not> passed (rule seg))
              \<longrightarrow> \<not> res_passed v) \<and>
           (cards seg \<noteq> [] \<and>
            \<not> (\<exists>rule. segmentRules (activeClockDef h) c = Some rule \<and> \<not> passed (rule seg))
              \<longrightarrow> (if 0 < c \<and> sumCards (cards seg) <
                              sumCards (cards (clockSegments (ui h) ! nat (c - 1)))
                   then \<not> res_passed v \<and> res_message v = ''Not Ascending''
                   else res_passed v))"
proof -
  from slot have rng: "0 \<le> c" "c < int (length (clockSegments (ui h)))"
    and seg: "clockSegments (ui h) ! nat c = seg"
    by (simp_all add: js_nth_Some_iff)
  have prev: "0 < c \<Longrightarrow>
      js_nth (clockSegments (ui h)) (c - 1) = Some (clockSegments (ui h) ! nat (c - 1))"
    using rng by (simp add: js_nth_def)
  let ?fails = "\<exists>rule. segmentRules (activeClockDef h) c = Some rule \<and> \<not> passed (rule seg)"
  let ?desc = "0 < c \<and> sumCards (cards seg) < sumCards (cards (clockSegments (ui h) ! nat (c - 1)))"
  have "\<exists>p msg. tickVerdict (activeClockDef h) (clockSegments (ui h)) c = Inr (p, msg) \<and>
          (cards seg = [] \<longrightarrow> \<not> p \<and> msg = ''Empty'') \<and>
          (cards seg \<noteq> [] \<and> ?fails \<longrightarrow> \<not> p) \<and>
          (cards seg \<noteq> [] \<and> \<not> ?fails \<longrightarrow>
             (if ?desc then \<not> p \<and> msg = ''Not Ascending'' else p))"
  proof (cases "cards seg = []")
    case True
    with slot show ?thesis by (auto simp: tickVerdict_def)
  next
    case ne: False
    show ?thesis
    proof (cases "?fails")
      case True
      with ne slot show ?thesis
        by (auto simp: tickVerdict_def Let_def)
    next
      case nf: False
      then have pm: "(case segmentRules (activeClockDef h) c of
                       Some rule \<Rightarrow>
                         (let res = rule seg
                          in if \<not> passed res
                             then (False, (case message res of
                                             None \<Rightarrow> ''Rule Failed''
                                           | Some m \<Rightarrow> if m = [] then ''Rule Failed'' else m))
                             else (True, []))
                     | None \<Rightarrow> (True, [])) = (True, [])"
        by (auto simp: Let_def split: option.splits)
      show ?thesis
      proof (cases "0 < c")
        case True
        with ne nf slot prev pm show ?thesis
          by (auto simp: tickVerdict_def Let_def sumCards_def)
      next
        case False
        with ne nf slot pm show ?thesis
          by (auto simp: tickVerdict_def Let_def)
      qed
    qed
  qed
  then obtain p msg where tv: "tickVerdict (activeClockDef h) (clockSegments (ui h)) c = Inr (p, msg)"
    and v1: "cards seg = [] \<longrightarrow> \<not> p \<and> msg = ''Empty''"
    and v2: "cards seg \<noteq> [] \<and> ?fails \<longrightarrow> \<not> p"
    and v3: "cards seg \<noteq> [] \<and> \<not> ?fails \<longrightarrow>
             (if ?desc then \<not> p \<and> msg = ''Not Ascending'' else p)"
    by blast
  show ?thesis
    using ph step tv v1 v2 v3
    by (cases "isHost h") (simp_all add: resolutionEffect_def TOTAL_SEGMENTS_def Let_def)
qed

theorem resolution_tick_witness:
  "phase (ui resHost) = RESOLUTION \<and> resolutionStep (ui resHost) = 1 \<and>
   js_nth (clockSegments (ui resHost)) 1
     = Some \<lparr>seg_index = 1, cards = [solar5\<lparr>ownerId := Some ''user-a''\<rparr>]\<rparr> \<and>
   \<not> isl (resolutionEffect resHost) \<and>
   resolutionResults (ui (projr (resolutionEffect resHost))) =
     [\<lparr>res_index = 0, res_passed = True, res_message = []\<rparr>,
      \<lparr>res_index = 1, res_passed = False, res_message = ''Not Ascending''\<rparr>] \<and>
   resolutionStep (ui (projr (resolutionEffect resHost))) = 2"
proof -
  have ph: "phase (ui resHost) = RESOLUTION"
    and step: "resolutionStep (ui resHost) = 1" "(0::int) \<le> 1" "(1::int) < 6"
    and slot: "js_nth (clockSegments (ui resHost)) 1
                 = Some \<lparr>seg_index = 1, cards = [solar5\<lparr>ownerId := Some ''user-a''\<rparr>]\<rparr>"
    by (simp_all add: resHost_def resState_def js_nth_def)
  have facts: "segmentRules (activeClockDef resHost) 1 = None"
    "sumCards (cards (clockSegments (ui resHost) ! nat (1 - 1))) = 8"
    "sumCards [solar5\<lparr>ownerId := Some ''user-a''\<rparr>] = 5"
    "resolutionResults (ui resHost) = [\<lparr>res_index = 0, res_passed = True, res_message = []\<rparr>]"
    by (simp_all add: resHost_def resState_def demoHost_def clock_c1_2_def sumCards_def
        solar5_def solar8_def)
  from resolution_tick [OF ph step slot] obtain h' v where
    r: "resolutionEffect resHost = Inr h'"
      "resolutionResults (ui h') = resolutionResults (ui resHost) @ [v]"
      "resolutionStep (ui h') = 1 + 1"
      "res_index v = 1" "\<not> res_passed v" "res_message v = ''Not Ascending''"
    using facts by auto
  from r(4-6) have "v = \<lparr>res_index = 1, res_passed = False, res_message = ''Not Ascending''\<rparr>"
    by (cases v) simp
  with r(1-3) facts(4) ph step slot show ?thesis by simp
qed

text \<open>
  C8 (amended). When the cursor has reached 6 in the resolution phase, the host re-runs
  the full validation of \<open>validateClock\<close> (on a board of at least 6 slots, for a
  mission with a non-negative starting slot and a maximum total that, when present, is
  not 0, as in all four missions), and the final system message, in the React state and
  in the ref, is \<open>VICTORY!\<close> if and only if every check of the specification passes,
  and \<open>DEFEAT!\<close> otherwise.
\<close>

theorem final_verdict:
  assumes ph: "phase (ui h) = RESOLUTION" and step: "resolutionStep (ui h) = 6"
    and host: "isHost h"
    and start: "0 \<le> startingSegmentIndex (activeClockDef h)"
    and len: "6 \<le> length (clockSegments (ui h))"
    and limit: "maxTotal (activeClockDef h) \<noteq> Some 0"
  shows "\<exists>h'. resolutionEffect h = Inr h' \<and>
           systemMessage (ui h') =
             (if fullValidation_spec (clockSegments (ui h)) (activeClockDef h)
              then ''VICTORY!'' else ''DEFEAT!'') \<and>
           systemMessage (gameStateRef h') = systemMessage (ui h')"
proof -
  from validateClock_all_passed [OF start len limit] obtain res where
    "validateClock (clockSegments (ui h)) (activeClockDef h) = Inr res"
    "list_all passed res \<longleftrightarrow> fullValidation_spec (clockSegments (ui h)) (activeClockDef h)"
    by blast
  with ph step host show ?thesis
    by (simp add: resolutionEffect_def TOTAL_SEGMENTS_def Let_def)
qed

theorem final_verdict_witness:
  "phase (ui (endHost wonBoard)) = RESOLUTION \<and> resolutionStep (ui (endHost wonBoard)) = 6 \<and>
   isHost (endHost wonBoard) \<and> 0 \<le> startingSegmentIndex (activeClockDef (endHost wonBoard)) \<and>
   6 \<le> length (clockSegments (ui (endHost wonBoard))) \<and>
   maxTotal (activeClockDef (endHost wonBoard)) \<noteq> Some 0 \<and>
   fullValidation_spec wonBoard clock_c1_2 \<and>
   \<not> isl (resolutionEffect (endHost wonBoard)) \<and>
   systemMessage (ui (projr (resolutionEffect (endHost wonBoard)))) = ''VICTORY!'' \<and>
   \<not> fullValidation_spec lostBoard clock_c1_2 \<and>
   \<not> isl (resolutionEffect (endHost lostBoard)) \<and>
   systemMessage (ui (projr (resolutionEffect (endHost lostBoard)))) = ''DEFEAT!''"
proof -
  have pre: "phase (ui (endHost b)) = RESOLUTION" "resolutionStep (ui (endHost b)) = 6"
    "isHost (endHost b)" "0 \<le> startingSegmentIndex (activeClockDef (endHost b))"
    "maxTotal (activeClockDef (endHost b)) \<noteq> Some 0"
    "clockSegments (ui (endHost b)) = b" "activeClockDef (endHost b) = clock_c1_2" for b
    by (simp_all add: endHost_def demoHost_def clock_c1_2_def)
  have len: "6 \<le> length (clockSegments (ui (endHost wonBoard)))"
    "6 \<le> length (clockSegments (ui (endHost lostBoard)))"
    by (simp_all add: pre wonBoard_def lostBoard_def)
  have won: "fullValidation_spec wonBoard clock_c1_2"
    by (simp add: fullValidation_spec_def slotSum_spec_def wonBoard_def clock_c1_2_def
        sumCards_def upto.simps solar1_def lunar1_def solar5_def solar8_def lunar2_def lunar9_def
        solar11_def solar12_def)
  have lost: "\<not> fullValidation_spec lostBoard clock_c1_2"
    by (simp add: fullValidation_spec_def slotSum_spec_def lostBoard_def clock_c1_2_def
        sumCards_def upto.simps solar1_def lunar1_def solar5_def solar8_def lunar2_def lunar9_def
        solar11_def solar12_def)
  from final_verdict [OF pre(1-4) len(1) pre(5)] won
  have 1: "\<not> isl (resolutionEffect (endHost wonBoard)) \<and>
           systemMessage (ui (projr (resolutionEffect (endHost wonBoard)))) = ''VICTORY!''"
    by (auto simp: pre)
  from final_verdict [OF pre(1-4) len(2) pre(5)] lost
  have 2: "\<not> isl (resolutionEffect (endHost lostBoard)) \<and>
           systemMessage (ui (projr (resolutionEffect (endHost lostBoard)))) = ''DEFEAT!''"
    by (auto simp: pre)
  from pre [of wonBoard] len won lost 1 2 show ?thesis by simp
qed

text \<open>
  C8 as stated names the messages without the exclamation mark: on a board that passes
  every check the system message is \<open>VICTORY!\<close>, which is not the string \<open>VICTORY\<close>.
\<close>

theorem final_verdict_counterexample:
  "phase (ui (endHost wonBoard)) = RESOLUTION \<and> resolutionStep (ui (endHost wonBoard)) = 6 \<and>
   isHost (endHost wonBoard) \<and>
   validateClock wonBoard clock_c1_2 =
     Inr [\<lparr>passed = True, message = Some ''Clock Validated Successfully!''\<rparr>] \<and>
   \<not> isl (resolutionEffect (endHost wonBoard)) \<and>
   systemMessage (gameStateRef (projr (resolutionEffect (endHost wonBoard)))) = ''VICTORY!'' \<and>
   systemMessage (gameStateRef (projr (resolutionEffect (endHost wonBoard)))) \<noteq> ''VICTORY''"
proof -
  have vc: "validateClock wonBoard clock_c1_2 =
     Inr [\<lparr>passed = True, message = Some ''Clock Validated Successfully!''\<rparr>]"
    by (simp add: validateClock_def TOTAL_SEGMENTS_def js_rem_def js_nth_def wonBoard_def
        clock_c1_2_def sumCards_def upto.simps Let_def solar1_def lunar1_def solar5_def
        solar8_def lunar2_def lunar9_def solar11_def solar12_def)
  have pre: "phase (ui (endHost wonBoard)) = RESOLUTION" "resolutionStep (ui (endHost wonBoard)) = 6"
    "isHost (endHost wonBoard)" "clockSegments (ui (endHost wonBoard)) = wonBoard"
    "activeClockDef (endHost wonBoard) = clock_c1_2"
    by (simp_all add: endHost_def demoHost_def)
  have "resolutionEffect (endHost wonBoard) =
     Inr ((endHost wonBoard)\<lparr>ui := (ui (endHost wonBoard))\<lparr>systemMessage := ''VICTORY!''\<rparr>,
            gameStateRef := (gameStateRef (endHost wonBoard))\<lparr>systemMessage := ''VICTORY!''\<rparr>\<rparr>)"
    by (simp add: resolutionEffect_def pre vc TOTAL_SEGMENTS_def Let_def)
  with vc pre show ?thesis by simp
qed

end
